theory Spec2Isabelle
  imports Main "HOL-Library.Sublist"
begin

section \<open>Python values\<close>

text \<open>
  The attribute bag of a detection result (\<^verbatim>\<open>details\<close>, \<^verbatim>\<open>detected_tech\<close>) and the
  result objects of the tools are Python dictionaries with string keys. A dictionary is
  an association list in insertion order; a value is one of the Python values the
  code stores in them.
\<close>

datatype pyval =
    PNone
  | PBool bool
  | PInt int
  | PStr string
  | PList "pyval list"
  | PDict "(string \<times> pyval) list"

type_synonym pydict = "(string \<times> pyval) list"

text \<open>
  An exception that is an instance of \<^verbatim>\<open>Exception\<close>, with the text of \<^verbatim>\<open>str(e)\<close>:
  an \<^verbatim>\<open>OSError\<close> (\<^verbatim>\<open>IOError\<close> is the same class), which \<^verbatim>\<open>except IOError\<close> catches, or
  any other one, which only \<^verbatim>\<open>except Exception\<close> catches.
\<close>

datatype exn = OSError string | Exception string

text \<open>\<^verbatim>\<open>d[k] = v\<close>: an existing key keeps its position, a new key goes last.\<close>

fun dict_set :: "string \<Rightarrow> pyval \<Rightarrow> pydict \<Rightarrow> pydict" where
  "dict_set k v [] = [(k, v)]"
| "dict_set k v ((k', v') # d) = (if k' = k then (k, v) # d else (k', v') # dict_set k v d)"

text \<open>\<^verbatim>\<open>d.get(k)\<close>, with \<open>None\<close> for Python's \<^verbatim>\<open>None\<close> of a missing key.\<close>

fun dict_get :: "pydict \<Rightarrow> string \<Rightarrow> pyval option" where
  "dict_get [] k = None"
| "dict_get ((k', v) # d) k = (if k' = k then Some v else dict_get d k)"

text \<open>\<^verbatim>\<open>d.update(e)\<close>.\<close>

fun dict_update :: "pydict \<Rightarrow> pydict \<Rightarrow> pydict" where
  "dict_update d [] = d"
| "dict_update d ((k, v) # e) = dict_update (dict_set k v d) e"

text \<open>Truth value of a Python value, as \<^verbatim>\<open>if v:\<close> tests it.\<close>

fun truthy :: "pyval \<Rightarrow> bool" where
  "truthy PNone = False"
| "truthy (PBool b) = b"
| "truthy (PInt n) = (n \<noteq> 0)"
| "truthy (PStr s) = (s \<noteq> [])"
| "truthy (PList xs) = (xs \<noteq> [])"
| "truthy (PDict d) = (d \<noteq> [])"

text \<open>\<^verbatim>\<open>if d.get(k):\<close>, a missing key gives \<^verbatim>\<open>None\<close>, which is false.\<close>

definition get_truthy :: "pydict \<Rightarrow> string \<Rightarrow> bool" where
  "get_truthy d k = (case dict_get d k of None \<Rightarrow> False | Some v \<Rightarrow> truthy v)"

section \<open>Strings and paths\<close>

text \<open>\<^verbatim>\<open>sub in s\<close> on strings.\<close>

fun contains :: "string \<Rightarrow> string \<Rightarrow> bool" where
  "contains sub [] = (sub = [])"
| "contains sub (c # cs) = (prefix sub (c # cs) \<or> contains sub cs)"

text \<open>\<^verbatim>\<open>s.endswith(x)\<close>.\<close>

definition endswith :: "string \<Rightarrow> string \<Rightarrow> bool" where
  "endswith s x = prefix (rev x) (rev s)"

text \<open>
  \<^verbatim>\<open>os.path.join(a, b)\<close> for a relative second component, on POSIX: the separator is
  added unless the first component is empty or already ends with one.
\<close>

definition os_path_join :: "string \<Rightarrow> string \<Rightarrow> string" where
  "os_path_join a b =
     (if prefix ''/'' b then b
      else if a = [] \<or> endswith a ''/'' then a @ b
      else a @ ''/'' @ b)"

text \<open>ASCII decimal digits, the characters \<^verbatim>\<open>\d\<close> matches in a byte string.\<close>

definition is_digit :: "char \<Rightarrow> bool" where
  "is_digit c = ((48::nat) \<le> of_char c \<and> (of_char c :: nat) \<le> 57)"

text \<open>\<^verbatim>\<open>int(s)\<close> for a string of decimal digits.\<close>

definition int_of_digits :: "string \<Rightarrow> int" where
  "int_of_digits ds = foldl (\<lambda>a c. 10 * a + (int (of_char c) - 48)) 0 ds"

text \<open>
  \<^verbatim>\<open>re.search(r'(\d+)', s)\<close>: group 1 of the leftmost match, the first maximal run of
  digits of \<open>s\<close>, or \<open>None\<close> when \<open>s\<close> has no digit.
\<close>

definition search_digits :: "string \<Rightarrow> string option" where
  "search_digits s =
     (let r = dropWhile (\<lambda>c. \<not> is_digit c) s
      in if r = [] then None else Some (takeWhile is_digit r))"

text \<open>
  \<^verbatim>\<open>str.strip()\<close>, \<^verbatim>\<open>str.lower()\<close> and \<^verbatim>\<open>str.split(sep)\<close> on ASCII text: the whitespace
  characters are tab, line feed, vertical tab, form feed, carriage return, the four
  separators \<^verbatim>\<open>\x1c\<close> to \<^verbatim>\<open>\x1f\<close>, and space.
\<close>

definition is_space :: "char \<Rightarrow> bool" where
  "is_space c = (let n = (of_char c :: nat) in (9 \<le> n \<and> n \<le> 13) \<or> (28 \<le> n \<and> n \<le> 32))"

definition strip :: "string \<Rightarrow> string" where
  "strip s = rev (dropWhile is_space (rev (dropWhile is_space s)))"

definition lower :: "string \<Rightarrow> string" where
  "lower s = map (\<lambda>c. let n = (of_char c :: nat) in
                       if 65 \<le> n \<and> n \<le> 90 then char_of (n + 32) else c) s"

fun split_on :: "char \<Rightarrow> string \<Rightarrow> string list" where
  "split_on sep [] = [[]]"
| "split_on sep (c # cs) =
     (if c = sep then [] # split_on sep cs
      else (case split_on sep cs of [] \<Rightarrow> [[c]] | p # ps \<Rightarrow> (c # p) # ps))"

text \<open>
  \<^verbatim>\<open>int(s)\<close>: surrounding whitespace and one sign are allowed, the digits may be grouped
  by single underscores; anything else raises \<^verbatim>\<open>ValueError\<close> (\<open>None\<close>).
\<close>

fun int_body :: "string \<Rightarrow> bool" where
  "int_body [] = False"
| "int_body [c] = is_digit c"
| "int_body (c # d # cs) =
     (is_digit c \<and> (if d = CHR ''_'' then int_body cs else int_body (d # cs)))"

definition py_int :: "string \<Rightarrow> int option" where
  "py_int s =
     (let t = strip s;
          neg = (case t of [] \<Rightarrow> False | c # _ \<Rightarrow> c = CHR ''-'');
          body = (case t of [] \<Rightarrow> []
                  | c # r \<Rightarrow> if c = CHR ''-'' \<or> c = CHR ''+'' then r else t)
      in if int_body body
         then Some ((if neg then - 1 else 1) * int_of_digits (filter is_digit body))
         else None)"

section \<open>The world a call runs in\<close>

text \<open>
  A file is readable with its content, or opening or reading it raises (an \<^verbatim>\<open>OSError\<close>
  such as a refused permission, or another exception such as \<^verbatim>\<open>UnicodeDecodeError\<close>).
  A directory lists its entries by name, in the order \<^verbatim>\<open>os.walk\<close> sees them.
\<close>

datatype pyfile = Readable string | Unreadable exn

datatype node = File pyfile | Dir "(string \<times> node) list"

text \<open>An XML element as \<^verbatim>\<open>xml.etree.ElementTree\<close> gives it: the qualified tag, the text
  (\<^verbatim>\<open>None\<close> for an empty element) and the child elements in document order.\<close>

datatype element = Element (etag: string) (etext: "string option") (echildren: "element list")

text \<open>What \<^verbatim>\<open>ET.parse(path).getroot()\<close> gives: the root element, \<^verbatim>\<open>ET.ParseError\<close>, or
  another exception.\<close>

datatype xml = Parsed element | ParseError | XmlError string

text \<open>What \<^verbatim>\<open>subprocess.run(args, capture_output=True, text=True, timeout=t)\<close> gives:
  the return code with the captured output, or one of the exceptions the code names.\<close>

datatype proc =
    Completed int string string
  | TimeoutExpired
  | FileNotFoundError
  | OtherError string

text \<open>What a probe that is not modelled in detail does on a project root: it returns
  \<^verbatim>\<open>None, {}\<close>, returns its own project type with details, or raises.\<close>

datatype outcome = NoMatch | Match pydict | Raises exn

text \<open>
  The regular expressions of \<^verbatim>\<open>project_analyzer.py\<close> that go through the library:
  \<^item> \<open>PythonVersionOutput\<close>: \<^verbatim>\<open>Python\s+(\d+\.\d+\.?\d*)\<close> (lines 535, 713);
  \<^item> \<open>PythonVersionFile\<close>: \<^verbatim>\<open>^(\d+\.\d+\.?\d*)\<close> (line 572);
  \<^item> \<open>RequiresPython\<close>: \<^verbatim>\<open>requires-python\s*=\s*["\']([^"\']+)["\']\<close> (line 602);
  \<^item> \<open>PoetryPython\<close>:
    \<^verbatim>\<open>\[tool\.poetry\.dependencies\][^\[]*python\s*=\s*["\']([^"\']+)["\']\<close>, DOTALL (line 605);
  \<^item> \<open>VersionNumber\<close>: \<^verbatim>\<open>(\d+\.\d+\.?\d*)\<close> (lines 610, 674);
  \<^item> \<open>PipfilePython\<close>:
    \<^verbatim>\<open>\[requires\][^\[]*python_version\s*=\s*["\']([^"\']+)["\']\<close>, DOTALL (line 641);
  \<^item> \<open>SetupPythonRequires\<close>: \<^verbatim>\<open>python_requires\s*=\s*["\']([^"\']+)["\']\<close> (line 671);
  \<^item> \<open>SecretKey\<close>: \<^verbatim>\<open>SECRET_KEY\s*=\s*['\"][\w\-]+['\"]\<close> (line 835);
  \<^item> \<open>DjangoReq\<close>, \<open>FlaskReq\<close>, \<open>FastapiReq\<close>: \<^verbatim>\<open>django==([0-9.]+)\<close> and its two siblings
    (lines 892, 896, 900);
  \<^item> \<open>DjangoPyproject\<close>: \<^verbatim>\<open>django\s*=\s*"([^"]+)"\<close>, IGNORECASE (line 922).
\<close>

datatype pattern =
    PythonVersionOutput | PythonVersionFile | RequiresPython | PoetryPython | VersionNumber
  | PipfilePython | SetupPythonRequires | SecretKey | DjangoReq | FlaskReq | FastapiReq
  | DjangoPyproject

text \<open>
  Everything outside the repository that a call reads: the file system by path, the
  XML parser, the regular-expression library for the patterns whose matches no
  statement below evaluates (\<open>re_search w pattern subject\<close> is group 1 of the leftmost
  match, or the whole match for a pattern without a group), child processes, the
  platform, the process environment, and the installed template directory. The probes
  \<^verbatim>\<open>check_java_legacy\<close>, \<^verbatim>\<open>check_angular\<close> and \<^verbatim>\<open>check_vue\<close> enter through what they do
  on a project root.

  Three further parts are parameters in the same way:
  \<^item> \<open>frontmatter_match\<close> is \<^verbatim>\<open>frontmatter_pattern.match(content)\<close> of \<^verbatim>\<open>load_mdc_file\<close>, the
    pattern \<^verbatim>\<open>^\s*---\s*$\n(.*?)\n^\s*---\s*$\n?(.*)\<close> with DOTALL and MULTILINE: groups 1
    and 2 of the match;
  \<^item> \<open>text_block n args\<close> is the text of the string literal that starts at line \<open>n\<close> of
    \<^verbatim>\<open>rule_generator.py\<close>, with \<open>args\<close> formatted into its replacement fields in order;
  \<^item> the faults of writing: \<open>makedirs_error\<close> and \<open>open_error\<close> give the message of the
    \<^verbatim>\<open>OSError\<close> that \<^verbatim>\<open>os.makedirs\<close> or \<^verbatim>\<open>open(path, 'w')\<close> raises on a path, and
    \<open>write_error path = Some n\<close> says that writing to the open file raises an \<^verbatim>\<open>OSError\<close>
    after \<open>n\<close> characters have reached it.
\<close>

record world =
  nodes :: "string \<Rightarrow> node option"
  et_parse :: "string \<Rightarrow> xml"
  re_search :: "pattern \<Rightarrow> string \<Rightarrow> string option"
  subprocess_run :: "string list \<Rightarrow> nat \<Rightarrow> proc"
  is_windows :: bool
  abspath :: "string \<Rightarrow> string"
  CURSOR_WORKSPACE :: "string option"
  getcwd :: string
  TEMPLATES_DIR :: string
  java_legacy :: "string \<Rightarrow> outcome"
  angular :: "string \<Rightarrow> outcome"
  vue :: "string \<Rightarrow> outcome"
  frontmatter_match :: "string \<Rightarrow> (string \<times> string) option"
  text_block :: "nat \<Rightarrow> pyval list \<Rightarrow> string"
  makedirs_error :: "string \<Rightarrow> string option"
  open_error :: "string \<Rightarrow> string option"
  write_error :: "string \<Rightarrow> nat option"

text \<open>\<^verbatim>\<open>os.path.exists\<close>, \<^verbatim>\<open>os.path.isdir\<close>, and reading a whole text file.\<close>

definition exists :: "world \<Rightarrow> string \<Rightarrow> bool" where
  "exists w p = (nodes w p \<noteq> None)"

definition isdir :: "world \<Rightarrow> string \<Rightarrow> bool" where
  "isdir w p = (case nodes w p of Some (Dir _) \<Rightarrow> True | _ \<Rightarrow> False)"

definition read_file :: "world \<Rightarrow> string \<Rightarrow> exn + string" where
  "read_file w p =
     (case nodes w p of
        Some (File (Readable s)) \<Rightarrow> Inr s
      | Some (File (Unreadable e)) \<Rightarrow> Inl e
      | Some (Dir _) \<Rightarrow> Inl (OSError ''IsADirectoryError'')
      | None \<Rightarrow> Inl (OSError ''FileNotFoundError''))"

section \<open>Probes\<close>

text \<open>
  A probe returns \<^verbatim>\<open>(project_type_or_None, details)\<close> or raises an exception.
\<close>

type_synonym probe_result = "exn + (string option \<times> pydict)"

section \<open>check_spring_boot\<close>

text \<open>\<^verbatim>\<open>e.find("m:tag", ns)\<close> and \<^verbatim>\<open>e.findall("m:tag", ns)\<close> look among the direct children
  of \<open>e\<close> for the tag in the Maven namespace.\<close>

definition m :: "string \<Rightarrow> string" where
  "m t = ''{http://maven.apache.org/POM/4.0.0}'' @ t"

definition elem_find :: "element \<Rightarrow> string \<Rightarrow> element option" where
  "elem_find e t = List.find (\<lambda>c. etag c = t) (echildren e)"

definition elem_findall :: "element \<Rightarrow> string \<Rightarrow> element list" where
  "elem_findall e t = filter (\<lambda>c. etag c = t) (echildren e)"

text \<open>The \<^verbatim>\<open>.text\<close> of an element as a Python value.\<close>

fun opt_str :: "string option \<Rightarrow> pyval" where
  "opt_str None = PNone"
| "opt_str (Some s) = PStr s"

text \<open>How a \<^verbatim>\<open>try\<close> body ends: at a \<^verbatim>\<open>return\<close>, in an exception that the handlers
  below it swallow, or at its last statement. The dictionary it was filling keeps what
  was stored before that point.\<close>

datatype try_end = Returned | Excepted exn | Finished

text \<open>
  The version block under a matching parent (lines 250 to 273). \<^verbatim>\<open>re.search\<close> on the
  \<^verbatim>\<open>None\<close> text of an empty \<^verbatim>\<open>version\<close> element raises \<^verbatim>\<open>TypeError\<close>, after the version
  attribute was stored.
\<close>

definition boot_version :: "element \<Rightarrow> pydict \<Rightarrow> pydict \<times> exn option" where
  "boot_version parent details =
     (case elem_find parent (m ''version'') of
        None \<Rightarrow> (details, None)
      | Some version_tag \<Rightarrow>
          (let details = dict_set ''spring_boot_version'' (opt_str (etext version_tag)) details in
           case etext version_tag of
             None \<Rightarrow> (details, Some (Exception ''TypeError''))
           | Some t \<Rightarrow>
               (case search_digits t of
                  None \<Rightarrow> (details, None)
                | Some g \<Rightarrow>
                    (let major_version = int_of_digits g;
                         details = dict_set ''spring_boot_major_version'' (PInt major_version) details
                     in if major_version = 1 then
                          (dict_set ''security_priority'' (PStr ''high'')
                             (dict_set ''is_legacy'' (PBool True) details), None)
                        else if major_version = 2 then
                          (dict_set ''security_priority'' (PStr ''medium'')
                             (dict_set ''is_modern'' (PBool True) details), None)
                        else if major_version \<ge> 3 then
                          (dict_set ''security_priority'' (PStr ''low'')
                             (dict_set ''requires_java17'' (PBool True)
                                (dict_set ''is_latest'' (PBool True) details)), None)
                        else (details, None)))))"

text \<open>
  One round of the dependency loop under a matching parent (lines 280 to 321), for a
  dependency that has both a \<^verbatim>\<open>groupId\<close> and an \<^verbatim>\<open>artifactId\<close> element.
  \<^verbatim>\<open>"mysql-connector" in artifact_text\<close> and its two siblings raise \<^verbatim>\<open>TypeError\<close> when the
  \<^verbatim>\<open>artifactId\<close> element is empty.
\<close>

definition boot_dep :: "string option \<Rightarrow> string option \<Rightarrow> pydict \<Rightarrow> exn + pydict" where
  "boot_dep group_text artifact_text details =
     (if group_text = Some ''org.springframework.boot'' \<and>
         artifact_text = Some ''spring-boot-starter-security''
      then Inr (dict_set ''uses_spring_security'' (PBool True) details)
      else if group_text = Some ''org.springframework.boot'' \<and>
         artifact_text = Some ''spring-boot-starter-data-jpa''
      then Inr (dict_set ''uses_spring_data_jpa'' (PBool True) details)
      else if group_text = Some ''org.springframework.boot'' \<and>
         artifact_text = Some ''spring-boot-starter-actuator''
      then Inr (dict_set ''uses_actuator'' (PBool True) details)
      else if group_text = Some ''org.springframework.boot'' \<and>
         artifact_text = Some ''spring-boot-starter-webflux''
      then Inr (dict_set ''uses_webflux'' (PBool True) details)
      else if (case group_text of None \<Rightarrow> False
               | Some g \<Rightarrow> g \<noteq> [] \<and> contains ''org.springframework.cloud'' g)
      then Inr (dict_set ''uses_spring_cloud'' (PBool True) details)
      else if group_text = Some ''mysql'' then
        (case artifact_text of
           None \<Rightarrow> Inl (Exception ''TypeError'')
         | Some a \<Rightarrow> Inr (if contains ''mysql-connector'' a
                         then dict_set ''database_mysql'' (PBool True) details else details))
      else if group_text = Some ''org.postgresql'' then
        (case artifact_text of
           None \<Rightarrow> Inl (Exception ''TypeError'')
         | Some a \<Rightarrow> Inr (if contains ''postgresql'' a
                         then dict_set ''database_postgresql'' (PBool True) details else details))
      else if group_text = Some ''com.h2database'' then
        (case artifact_text of
           None \<Rightarrow> Inl (Exception ''TypeError'')
         | Some a \<Rightarrow> Inr (if contains ''h2'' a
                         then dict_set ''h2_console_risk'' (PBool True)
                                (dict_set ''database_h2'' (PBool True) details)
                         else details))
      else Inr details)"

fun boot_deps :: "element list \<Rightarrow> pydict \<Rightarrow> pydict \<times> exn option" where
  "boot_deps [] details = (details, None)"
| "boot_deps (dep # deps) details =
     (case (elem_find dep (m ''groupId''), elem_find dep (m ''artifactId'')) of
        (Some groupId, Some artifactId) \<Rightarrow>
          (case boot_dep (etext groupId) (etext artifactId) details of
             Inl e \<Rightarrow> (details, Some e)
           | Inr details' \<Rightarrow> boot_deps deps details')
      | _ \<Rightarrow> boot_deps deps details)"

text \<open>
  The second dependency loop (lines 326 to 341), reached when the parent does not
  match: the first dependency of group \<^verbatim>\<open>org.springframework.boot\<close> whose artifact
  contains \<^verbatim>\<open>spring-boot-starter\<close> returns; an empty \<^verbatim>\<open>artifactId\<close> element of that
  group raises \<^verbatim>\<open>TypeError\<close>.
\<close>

fun starter_deps :: "element \<Rightarrow> element list \<Rightarrow> pydict \<Rightarrow> pydict \<times> try_end" where
  "starter_deps root [] details = (details, Finished)"
| "starter_deps root (dep # deps) details =
     (case elem_find dep (m ''groupId'') of
        None \<Rightarrow> starter_deps root deps details
      | Some groupId \<Rightarrow>
          if etext groupId \<noteq> Some ''org.springframework.boot''
          then starter_deps root deps details
          else
            (case elem_find dep (m ''artifactId'') of
               None \<Rightarrow> starter_deps root deps details
             | Some artifactId \<Rightarrow>
                 (case etext artifactId of
                    None \<Rightarrow> (details, Excepted (Exception ''TypeError''))
                  | Some a \<Rightarrow>
                      if \<not> contains ''spring-boot-starter'' a
                      then starter_deps root deps details
                      else if dict_get details ''spring_boot_version'' \<noteq> None
                      then (details, Returned)
                      else
                        (case elem_find root (m ''properties'') of
                           None \<Rightarrow> (details, Returned)
                         | Some properties \<Rightarrow>
                             (case elem_find properties (m ''spring-boot.version'') of
                                None \<Rightarrow> (details, Returned)
                              | Some prop \<Rightarrow>
                                  (dict_set ''spring_boot_version'' (opt_str (etext prop)) details,
                                   Returned))))))"

text \<open>The body of the \<^verbatim>\<open>try\<close> over a parsed \<^verbatim>\<open>pom.xml\<close> (lines 243 to 341).\<close>

definition pom_body :: "element \<Rightarrow> pydict \<times> try_end" where
  "pom_body root =
     (let starter =
        (case elem_find root (m ''dependencies'') of
           None \<Rightarrow> ([], Finished)
         | Some dependencies \<Rightarrow> starter_deps root (elem_findall dependencies (m ''dependency'')) [])
      in
      case elem_find root (m ''parent'') of
        None \<Rightarrow> starter
      | Some parent \<Rightarrow>
          (case elem_find parent (m ''artifactId'') of
             None \<Rightarrow> starter
           | Some artifactId \<Rightarrow>
               if etext artifactId \<noteq> Some ''spring-boot-starter-parent'' then starter
               else
                 (case boot_version parent [] of
                    (details, Some e) \<Rightarrow> (details, Excepted e)
                  | (details, None) \<Rightarrow>
                      (case elem_find root (m ''dependencies'') of
                         None \<Rightarrow> (details, Returned)
                       | Some dependencies \<Rightarrow>
                           (case boot_deps (elem_findall dependencies (m ''dependency'')) details of
                              (details', Some e) \<Rightarrow> (details', Excepted e)
                            | (details', None) \<Rightarrow> (details', Returned))))))"

definition pom_try :: "world \<Rightarrow> string \<Rightarrow> pydict \<times> try_end" where
  "pom_try w pom_path =
     (case et_parse w pom_path of
        Parsed root \<Rightarrow> pom_body root
      | ParseError \<Rightarrow> ([], Excepted (Exception ''ParseError''))
      | XmlError msg \<Rightarrow> ([], Excepted (Exception msg)))"

text \<open>The \<^verbatim>\<open>try\<close> over \<^verbatim>\<open>build.gradle\<close> (lines 349 to 357): whether it returns.\<close>

definition gradle_has_boot :: "world \<Rightarrow> string \<Rightarrow> bool" where
  "gradle_has_boot w gradle_path =
     (case read_file w gradle_path of
        Inl e \<Rightarrow> False
      | Inr content \<Rightarrow>
          contains ''org.springframework.boot'' content \<or>
          contains ''spring-boot-gradle-plugin'' content)"

text \<open>
  \<^verbatim>\<open>check_spring_boot(project_path, verbose)\<close>. The messages printed under \<^verbatim>\<open>verbose\<close>
  change no result and are left out, here and in the other probes.
\<close>

definition check_spring_boot :: "world \<Rightarrow> string \<Rightarrow> probe_result" where
  "check_spring_boot w project_path =
     (let pom_path = os_path_join project_path ''pom.xml'';
          gradle_path = os_path_join project_path ''build.gradle'';
          resources = os_path_join (os_path_join (os_path_join project_path ''src'') ''main'')
                        ''resources'';
          application_props_main = os_path_join resources ''application.properties'';
          application_yml_main = os_path_join resources ''application.yml'';
          application_yaml_main = os_path_join resources ''application.yaml'';
          (details, ended) = (if exists w pom_path then pom_try w pom_path else ([], Finished))
      in
      if ended = Returned then Inr (Some ''springboot'', details)
      else if exists w gradle_path \<and> gradle_has_boot w gradle_path
      then Inr (Some ''springboot'', details)
      else if exists w application_props_main \<or> exists w application_yml_main \<or>
              exists w application_yaml_main
      then Inr (Some ''springboot'', details)
      else Inr (None, []))"

section \<open>The other probes\<close>

text \<open>\<^verbatim>\<open>check_gitlab_ci\<close> (lines 476 to 482).\<close>

definition check_gitlab_ci :: "world \<Rightarrow> string \<Rightarrow> probe_result" where
  "check_gitlab_ci w project_path =
     (if exists w (os_path_join project_path ''.gitlab-ci.yml'')
      then Inr (Some ''gitlab_ci'', [])
      else Inr (None, []))"

text \<open>
  \<^verbatim>\<open>check_java_legacy\<close>, \<^verbatim>\<open>check_angular\<close> and \<^verbatim>\<open>check_vue\<close>: each returns \<^verbatim>\<open>None, {}\<close> or
  its own project type with the details it collected, or raises (for example
  \<^verbatim>\<open>"vue" in dependencies\<close> on a \<^verbatim>\<open>package.json\<close> whose \<^verbatim>\<open>dependencies\<close> is a number).
\<close>

fun as_probe :: "string \<Rightarrow> outcome \<Rightarrow> probe_result" where
  "as_probe ty NoMatch = Inr (None, [])"
| "as_probe ty (Match details) = Inr (Some ty, details)"
| "as_probe ty (Raises e) = Inl e"

definition check_java_legacy :: "world \<Rightarrow> string \<Rightarrow> probe_result" where
  "check_java_legacy w project_path = as_probe ''java_legacy_spring'' (java_legacy w project_path)"

definition check_angular :: "world \<Rightarrow> string \<Rightarrow> probe_result" where
  "check_angular w project_path = as_probe ''angular'' (angular w project_path)"

definition check_vue :: "world \<Rightarrow> string \<Rightarrow> probe_result" where
  "check_vue w project_path = as_probe ''vue'' (vue w project_path)"

section \<open>detect_python_version\<close>

text \<open>
  A call of \<^verbatim>\<open>subprocess.run\<close>: the argument list and the \<^verbatim>\<open>timeout\<close> it was given.
  \<^verbatim>\<open>detect_python_version\<close> is modelled with the list of the calls it made, in order.
\<close>

type_synonym call = "string list \<times> nat"

text \<open>The three lines after each detected version (for example 545 to 549):
  \<^verbatim>\<open>int\<close> raises \<^verbatim>\<open>ValueError\<close> on a part that is not a number.\<close>

definition set_version_parts :: "string \<Rightarrow> pydict \<Rightarrow> pydict \<times> exn option" where
  "set_version_parts full_version details =
     (case split_on CHR ''.'' full_version of
        [] \<Rightarrow> (details, None)
      | p0 # rest \<Rightarrow>
          (case py_int p0 of
             None \<Rightarrow> (details, Some (Exception ''ValueError''))
           | Some major \<Rightarrow>
               (let details = dict_set ''python_major_version'' (PInt major) details in
                case rest of
                  [] \<Rightarrow> (details, None)
                | p1 # _ \<Rightarrow>
                    (case py_int p1 of
                       None \<Rightarrow> (details, Some (Exception ''ValueError''))
                     | Some minor \<Rightarrow>
                         (dict_set ''python_minor_version'' (PInt minor) details, None)))))"

text \<open>A strategy ends with the details so far and whether it executed \<^verbatim>\<open>return details\<close>.\<close>

definition finish_version :: "string \<Rightarrow> pydict \<Rightarrow> pydict \<times> bool" where
  "finish_version full_version details =
     (case set_version_parts full_version details of
        (details', Some e) \<Rightarrow> (details', False)
      | (details', None) \<Rightarrow> (details', True))"

text \<open>\<^verbatim>\<open>result.stdout.strip() or result.stderr.strip()\<close>.\<close>

definition version_output :: "string \<Rightarrow> string \<Rightarrow> string" where
  "version_output out err = (if strip out \<noteq> [] then strip out else strip err)"

text \<open>The interpreter of a virtual environment (lines 511 to 516).\<close>

definition venv_python_of :: "world \<Rightarrow> string \<Rightarrow> string" where
  "venv_python_of w venv_dir =
     (let python_exe = (if is_windows w then ''python.exe'' else ''python'');
          bin_dir = (if is_windows w then ''Scripts'' else ''bin'');
          venv_python = os_path_join (os_path_join venv_dir bin_dir) python_exe
      in if \<not> exists w venv_python \<and> is_windows w
         then os_path_join (os_path_join venv_dir bin_dir) ''python''
         else venv_python)"

text \<open>The \<^verbatim>\<open>try\<close> of one virtual environment whose interpreter exists (lines 522 to 561).\<close>

definition venv_try :: "world \<Rightarrow> string \<Rightarrow> string \<Rightarrow> pydict \<Rightarrow> pydict \<times> bool" where
  "venv_try w venv_dir venv_python details =
     (case subprocess_run w [venv_python, ''--version''] 5 of
        Completed returncode out err \<Rightarrow>
          if returncode \<noteq> 0 then (details, False)
          else
            (case re_search w PythonVersionOutput (version_output out err) of
               None \<Rightarrow> (details, False)
             | Some full_version \<Rightarrow>
                 finish_version full_version
                   (dict_set ''venv_path'' (PStr (abspath w venv_dir))
                   (dict_set ''is_venv'' (PBool True)
                   (dict_set ''python_source'' (PStr ''venv'')
                   (dict_set ''python_path'' (PStr (abspath w venv_python))
                   (dict_set ''python_version'' (PStr full_version) details))))))
      | TimeoutExpired \<Rightarrow> (details, False)
      | FileNotFoundError \<Rightarrow> (details, False)
      | OtherError msg \<Rightarrow> (details, False))"

text \<open>The loop over \<^verbatim>\<open>venv_paths\<close> (lines 510 to 561), with the calls it makes.\<close>

fun venv_loop :: "world \<Rightarrow> string \<Rightarrow> string list \<Rightarrow> pydict \<Rightarrow> (pydict \<times> bool) \<times> call list" where
  "venv_loop w project_path [] details = ((details, False), [])"
| "venv_loop w project_path (venv_name # rest) details =
     (let venv_dir = os_path_join project_path venv_name;
          venv_python = venv_python_of w venv_dir
      in if exists w venv_python then
           (case venv_try w venv_dir venv_python details of
              (details', True) \<Rightarrow> ((details', True), [([venv_python, ''--version''], 5)])
            | (details', False) \<Rightarrow>
                (let (r, calls) = venv_loop w project_path rest details'
                 in (r, ([venv_python, ''--version''], 5) # calls)))
         else venv_loop w project_path rest details)"

text \<open>Strategy 2.1, \<^verbatim>\<open>.python-version\<close> (lines 566 to 592).\<close>

definition pyenv_strategy :: "world \<Rightarrow> string \<Rightarrow> pydict \<Rightarrow> pydict \<times> bool" where
  "pyenv_strategy w project_path details =
     (let python_version_file = os_path_join project_path ''.python-version'' in
      if \<not> exists w python_version_file then (details, False)
      else
        (case read_file w python_version_file of
           Inl e \<Rightarrow> (details, False)
         | Inr content \<Rightarrow>
             (case re_search w PythonVersionFile (strip content) of
                None \<Rightarrow> (details, False)
              | Some full_version \<Rightarrow>
                  finish_version full_version
                    (dict_set ''is_venv'' (PBool False)
                    (dict_set ''python_source'' (PStr ''pyenv'')
                    (dict_set ''python_version'' (PStr full_version) details))))))"

text \<open>Strategies 2.2 and 2.4 store the version specifier and the number found in it
  (lines 607 to 627 and 672 to 691).\<close>

definition spec_strategy :: "world \<Rightarrow> string \<Rightarrow> string option \<Rightarrow> pydict \<Rightarrow> pydict \<times> bool" where
  "spec_strategy w source requires_match details =
     (case requires_match of
        None \<Rightarrow> (details, False)
      | Some version_spec \<Rightarrow>
          (case re_search w VersionNumber version_spec of
             None \<Rightarrow> (details, False)
           | Some full_version \<Rightarrow>
               finish_version full_version
                 (dict_set ''is_venv'' (PBool False)
                 (dict_set ''python_source'' (PStr source)
                 (dict_set ''python_version'' (PStr full_version)
                 (dict_set ''python_version_required'' (PStr version_spec) details))))))"

text \<open>Strategy 2.2, \<^verbatim>\<open>pyproject.toml\<close> (lines 595 to 631).\<close>

definition pyproject_strategy :: "world \<Rightarrow> string \<Rightarrow> pydict \<Rightarrow> pydict \<times> bool" where
  "pyproject_strategy w project_path details =
     (let pyproject_path = os_path_join project_path ''pyproject.toml'' in
      if \<not> exists w pyproject_path then (details, False)
      else
        (case read_file w pyproject_path of
           Inl e \<Rightarrow> (details, False)
         | Inr content \<Rightarrow>
             spec_strategy w ''pyproject''
               (case re_search w RequiresPython content of
                  Some g \<Rightarrow> Some g
                | None \<Rightarrow> re_search w PoetryPython content)
               details))"

text \<open>Strategy 2.3, \<^verbatim>\<open>Pipfile\<close> (lines 634 to 661): the quoted text is taken as the
  version without a second pattern.\<close>

definition pipfile_strategy :: "world \<Rightarrow> string \<Rightarrow> pydict \<Rightarrow> pydict \<times> bool" where
  "pipfile_strategy w project_path details =
     (let pipfile_path = os_path_join project_path ''Pipfile'' in
      if \<not> exists w pipfile_path then (details, False)
      else
        (case read_file w pipfile_path of
           Inl e \<Rightarrow> (details, False)
         | Inr content \<Rightarrow>
             (case re_search w PipfilePython content of
                None \<Rightarrow> (details, False)
              | Some full_version \<Rightarrow>
                  finish_version full_version
                    (dict_set ''is_venv'' (PBool False)
                    (dict_set ''python_source'' (PStr ''pipfile'')
                    (dict_set ''python_version'' (PStr full_version) details))))))"

text \<open>Strategy 2.4, \<^verbatim>\<open>setup.py\<close> (lines 664 to 695).\<close>

definition setup_py_strategy :: "world \<Rightarrow> string \<Rightarrow> pydict \<Rightarrow> pydict \<times> bool" where
  "setup_py_strategy w project_path details =
     (let setup_py_path = os_path_join project_path ''setup.py'' in
      if \<not> exists w setup_py_path then (details, False)
      else
        (case read_file w setup_py_path of
           Inl e \<Rightarrow> (details, False)
         | Inr content \<Rightarrow>
             spec_strategy w ''setup.py'' (re_search w SetupPythonRequires content) details))"

text \<open>The four file strategies in the order of the source: the first that returns ends
  the search.\<close>

definition file_strategies :: "world \<Rightarrow> string \<Rightarrow> pydict \<Rightarrow> pydict \<times> bool" where
  "file_strategies w project_path details =
     (case pyenv_strategy w project_path details of
        (d1, True) \<Rightarrow> (d1, True)
      | (d1, False) \<Rightarrow>
          (case pyproject_strategy w project_path d1 of
             (d2, True) \<Rightarrow> (d2, True)
           | (d2, False) \<Rightarrow>
               (case pipfile_strategy w project_path d2 of
                  (d3, True) \<Rightarrow> (d3, True)
                | (d3, False) \<Rightarrow> setup_py_strategy w project_path d3)))"

text \<open>
  The \<^verbatim>\<open>try\<close> of one system interpreter (lines 701 to 757). The second call asks
  \<^verbatim>\<open>which\<close> (\<^verbatim>\<open>where\<close> on Windows) for the path; an exception of either call is caught
  by the handlers of the same \<^verbatim>\<open>try\<close>, before anything was stored.
\<close>

definition system_try :: "world \<Rightarrow> string \<Rightarrow> pydict \<Rightarrow> (pydict \<times> bool) \<times> call list" where
  "system_try w python_cmd details =
     (let version_call = ([python_cmd, ''--version''], 5);
          which_cmd = (if is_windows w then ''where'' else ''which'');
          path_call = ([which_cmd, python_cmd], 5)
      in
      case subprocess_run w [python_cmd, ''--version''] 5 of
        Completed returncode out err \<Rightarrow>
          if returncode \<noteq> 0 then ((details, False), [version_call])
          else
            (case re_search w PythonVersionOutput (version_output out err) of
               None \<Rightarrow> ((details, False), [version_call])
             | Some full_version \<Rightarrow>
                 (case subprocess_run w [which_cmd, python_cmd] 5 of
                    Completed path_returncode path_out path_err \<Rightarrow>
                      (let python_path =
                             (if path_returncode = 0
                              then (case split_on CHR 0x0A (strip path_out) of
                                      [] \<Rightarrow> [] | l # _ \<Rightarrow> strip l)
                              else [])
                       in (finish_version full_version
                             (dict_set ''is_venv'' (PBool False)
                             (dict_set ''python_source'' (PStr ''system'')
                             (dict_set ''python_path''
                                (PStr (if python_path \<noteq> [] then python_path else python_cmd))
                             (dict_set ''python_version'' (PStr full_version) details)))),
                           [version_call, path_call]))
                  | TimeoutExpired \<Rightarrow> ((details, False), [version_call, path_call])
                  | FileNotFoundError \<Rightarrow> ((details, False), [version_call, path_call])
                  | OtherError msg \<Rightarrow> ((details, False), [version_call, path_call])))
      | TimeoutExpired \<Rightarrow> ((details, False), [version_call])
      | FileNotFoundError \<Rightarrow> ((details, False), [version_call])
      | OtherError msg \<Rightarrow> ((details, False), [version_call]))"

fun system_loop :: "world \<Rightarrow> string list \<Rightarrow> pydict \<Rightarrow> pydict \<times> call list" where
  "system_loop w [] details = (details, [])"
| "system_loop w (python_cmd # rest) details =
     (case system_try w python_cmd details of
        ((details', True), calls) \<Rightarrow> (details', calls)
      | ((details', False), calls) \<Rightarrow>
          (let (d, calls') = system_loop w rest details' in (d, calls @ calls')))"

text \<open>
  \<^verbatim>\<open>detect_python_version(project_path, verbose)\<close>: the dictionary it returns and the
  calls of \<^verbatim>\<open>subprocess.run\<close> it made.
\<close>

definition venv_paths :: "string list" where
  "venv_paths = [''.venv'', ''venv'', ''env'', ''.env'']"

definition python_commands :: "world \<Rightarrow> string list" where
  "python_commands w = (if is_windows w then [''python'', ''python3''] else [''python3'', ''python''])"

definition detect_python_version :: "world \<Rightarrow> string \<Rightarrow> pydict \<times> call list" where
  "detect_python_version w project_path =
     (case venv_loop w project_path venv_paths [] of
        ((details, True), calls) \<Rightarrow> (details, calls)
      | ((details, False), calls) \<Rightarrow>
          (case file_strategies w project_path details of
             (details', True) \<Rightarrow> (details', calls)
           | (details', False) \<Rightarrow>
               (let (d, calls') = system_loop w (python_commands w) details'
                in (d, calls @ calls'))))"

section \<open>check_python\<close>

text \<open>
  \<^verbatim>\<open>os.walk(top)\<close> top-down over the tree found at the path: each directory with the names
  of its files, then its subdirectories in order. \<open>keep\<close> is the pruning the caller
  applies to \<^verbatim>\<open>dirs\<close> in place.
\<close>

fun walk :: "(string \<Rightarrow> bool) \<Rightarrow> string \<Rightarrow> node \<Rightarrow> (string \<times> string list) list"
  and walk_entries :: "(string \<Rightarrow> bool) \<Rightarrow> string \<Rightarrow> (string \<times> node) list \<Rightarrow>
    (string \<times> string list) list" where
  "walk keep dirpath (File f) = []"
| "walk keep dirpath (Dir entries) =
     (dirpath, map fst (filter (\<lambda>(n, c). case c of File f \<Rightarrow> True | Dir es \<Rightarrow> False) entries))
       # walk_entries keep dirpath entries"
| "walk_entries keep dirpath [] = []"
| "walk_entries keep dirpath ((n, c) # rest) =
     (if keep n then walk keep (os_path_join dirpath n) c else []) @ walk_entries keep dirpath rest"

definition os_walk :: "world \<Rightarrow> (string \<Rightarrow> bool) \<Rightarrow> string \<Rightarrow> (string \<times> string list) list" where
  "os_walk w keep dirpath =
     (case nodes w dirpath of None \<Rightarrow> [] | Some n \<Rightarrow> walk keep dirpath n)"

text \<open>Lines 782 to 793: the count of \<^verbatim>\<open>.py\<close> files stops at three.\<close>

definition python_files_found :: "world \<Rightarrow> string \<Rightarrow> nat" where
  "python_files_found w project_path =
     min 3 (length (filter (\<lambda>f. endswith f ''.py'')
       (concat (map snd (os_walk w
          (\<lambda>d. d \<notin> set [''venv'', ''.venv'', ''env'', ''__pycache__'', ''.git'', ''node_modules''])
          project_path)))))"

text \<open>The state of the probe between its blocks: \<^verbatim>\<open>details\<close> and \<^verbatim>\<open>frameworks_detected\<close>.\<close>

type_synonym pystate = "pydict \<times> string list"

text \<open>What is read from the first \<^verbatim>\<open>settings.py\<close> (lines 819 to 840).\<close>

definition django_settings :: "world \<Rightarrow> string \<Rightarrow> pydict \<Rightarrow> pydict" where
  "django_settings w settings_path details =
     (case read_file w settings_path of
        Inl e \<Rightarrow> details
      | Inr content \<Rightarrow>
          (let details = (if contains ''DEBUG = True'' content
                          then dict_set ''debug_enabled'' (PBool True) details else details);
               details = (if contains ''sqlite3'' content
                          then dict_set ''database_sqlite'' (PBool True) details
                          else if contains ''postgresql'' content \<or> contains ''psycopg'' content
                          then dict_set ''database_postgresql'' (PBool True) details
                          else if contains ''mysql'' content
                          then dict_set ''database_mysql'' (PBool True) details
                          else details)
           in if re_search w SecretKey content \<noteq> None
              then dict_set ''hardcoded_secret_key'' (PBool True) details else details))"

text \<open>Lines 807 to 841.\<close>

definition django_block :: "world \<Rightarrow> string \<Rightarrow> string list \<Rightarrow> pystate \<Rightarrow> pystate" where
  "django_block w project_path found_indicators st =
     (case st of (details, frameworks_detected) \<Rightarrow>
        if ''manage.py'' \<notin> set found_indicators then st
        else
          (let details = dict_set ''is_django'' (PBool True) details;
               frameworks_detected = frameworks_detected @ [''Django'']
           in case List.find (\<lambda>(root, files). ''settings.py'' \<in> set files)
                     (os_walk w (\<lambda>d. True) project_path) of
                None \<Rightarrow> (details, frameworks_detected)
              | Some (root, files) \<Rightarrow>
                  (let settings_path = os_path_join root ''settings.py'' in
                   (django_settings w settings_path
                      (dict_set ''django_settings_path'' (PStr settings_path) details),
                    frameworks_detected))))"

text \<open>Lines 844 to 859.\<close>

definition flask_block :: "world \<Rightarrow> string \<Rightarrow> string list \<Rightarrow> pystate \<Rightarrow> pystate" where
  "flask_block w project_path found_indicators st =
     (case st of (details, frameworks_detected) \<Rightarrow>
        if ''app.py'' \<notin> set found_indicators then st
        else
          (case read_file w (os_path_join project_path ''app.py'') of
             Inl e \<Rightarrow> st
           | Inr content \<Rightarrow>
               if contains ''from flask import'' content \<or> contains ''import flask'' content
               then
                 (let details = dict_set ''is_flask'' (PBool True) details in
                  (if contains ''debug=True'' content \<or> contains ''app.debug = True'' content
                   then dict_set ''debug_enabled'' (PBool True) details else details,
                   frameworks_detected @ [''Flask'']))
               else st))"

text \<open>Lines 862 to 871.\<close>

definition fastapi_block :: "world \<Rightarrow> string \<Rightarrow> string list \<Rightarrow> pystate \<Rightarrow> pystate" where
  "fastapi_block w project_path found_indicators st =
     (case st of (details, frameworks_detected) \<Rightarrow>
        if ''main.py'' \<notin> set found_indicators then st
        else
          (case read_file w (os_path_join project_path ''main.py'') of
             Inl e \<Rightarrow> st
           | Inr content \<Rightarrow>
               if contains ''from fastapi import'' content \<or> contains ''import fastapi'' content
               then (dict_set ''is_fastapi'' (PBool True) details, frameworks_detected @ [''FastAPI''])
               else st))"

text \<open>The loop over the requirement lines (lines 889 to 904): \<^verbatim>\<open>details\<close> and
  \<^verbatim>\<open>risky_packages\<close>.\<close>

definition requirement_step :: "world \<Rightarrow> string \<Rightarrow> pydict \<times> string list \<Rightarrow> pydict \<times> string list" where
  "requirement_step w req st =
     (case st of (details, risky_packages) \<Rightarrow>
        (let req_lower = lower req in
         if contains ''django=='' req_lower then
           (case re_search w DjangoReq req_lower of
              None \<Rightarrow> st
            | Some g \<Rightarrow> (dict_set ''django_version'' (PStr g) details, risky_packages))
         else if contains ''flask=='' req_lower then
           (case re_search w FlaskReq req_lower of
              None \<Rightarrow> st
            | Some g \<Rightarrow> (dict_set ''flask_version'' (PStr g) details, risky_packages))
         else if contains ''fastapi=='' req_lower then
           (case re_search w FastapiReq req_lower of
              None \<Rightarrow> st
            | Some g \<Rightarrow> (dict_set ''fastapi_version'' (PStr g) details, risky_packages))
         else if \<exists>risky \<in> set [''pycrypto'', ''md5'', ''pickle'']. contains risky req_lower
         then (details, risky_packages @ [req])
         else st))"

fun requirement_loop :: "world \<Rightarrow> string list \<Rightarrow> pydict \<times> string list \<Rightarrow> pydict \<times> string list" where
  "requirement_loop w [] st = st"
| "requirement_loop w (req # rest) st = requirement_loop w rest (requirement_step w req st)"

text \<open>Lines 874 to 911.\<close>

definition requirements_block :: "world \<Rightarrow> string \<Rightarrow> string list \<Rightarrow> pystate \<Rightarrow> pystate" where
  "requirements_block w project_path found_indicators st =
     (case st of (details, frameworks_detected) \<Rightarrow>
        if ''requirements.txt'' \<notin> set found_indicators then st
        else
          (case read_file w (os_path_join project_path ''requirements.txt'') of
             Inl e \<Rightarrow> st
           | Inr content \<Rightarrow>
               (let requirements = filter (\<lambda>line. line \<noteq> [] \<and> \<not> prefix ''#'' line)
                                     (map strip (split_on CHR 0x0A content));
                    (details, risky_packages) =
                       requirement_loop w requirements
                         (dict_set ''requirements'' (PList (map PStr requirements)) details, [])
                in (if risky_packages \<noteq> []
                    then dict_set ''risky_packages'' (PList (map PStr risky_packages)) details
                    else details,
                    frameworks_detected))))"

text \<open>Lines 914 to 930.\<close>

definition pyproject_block :: "world \<Rightarrow> string \<Rightarrow> string list \<Rightarrow> pystate \<Rightarrow> pystate" where
  "pyproject_block w project_path found_indicators st =
     (case st of (details, frameworks_detected) \<Rightarrow>
        if ''pyproject.toml'' \<notin> set found_indicators then st
        else
          (case read_file w (os_path_join project_path ''pyproject.toml'') of
             Inl e \<Rightarrow> st
           | Inr content \<Rightarrow>
               (let details = dict_set ''is_poetry'' (PBool True) details in
                case re_search w DjangoPyproject content of
                  None \<Rightarrow> (details, frameworks_detected)
                | Some g \<Rightarrow>
                    (let details = dict_set ''django_version'' (PStr g) details in
                     if ''Django'' \<notin> set frameworks_detected
                     then (dict_set ''is_django'' (PBool True) details,
                           frameworks_detected @ [''Django''])
                     else (details, frameworks_detected)))))"

text \<open>Lines 933 to 947.\<close>

definition pipfile_block :: "world \<Rightarrow> string \<Rightarrow> string list \<Rightarrow> pystate \<Rightarrow> pystate" where
  "pipfile_block w project_path found_indicators st =
     (case st of (details, frameworks_detected) \<Rightarrow>
        if ''Pipfile'' \<notin> set found_indicators then st
        else
          (case read_file w (os_path_join project_path ''Pipfile'') of
             Inl e \<Rightarrow> st
           | Inr content \<Rightarrow>
               (let details = dict_set ''is_pipenv'' (PBool True) details in
                if contains ''django'' (lower content) \<and> ''Django'' \<notin> set frameworks_detected
                then (dict_set ''is_django'' (PBool True) details,
                      frameworks_detected @ [''Django''])
                else (details, frameworks_detected))))"

text \<open>Lines 950 to 966: the marker files that only set a flag, each under the key
  the source computes for it.\<close>

fun marker_files :: "world \<Rightarrow> string \<Rightarrow> (string \<times> string) list \<Rightarrow> pydict \<Rightarrow> pydict" where
  "marker_files w project_path [] details = details"
| "marker_files w project_path ((name, key) # rest) details =
     marker_files w project_path rest
       (if exists w (os_path_join project_path name)
        then dict_set key (PBool True) details else details)"

text \<open>Lines 983 to 987.\<close>

definition python_security_priority :: "pydict \<Rightarrow> string" where
  "python_security_priority details =
     (if get_truthy details ''debug_enabled'' then ''high''
      else if get_truthy details ''hardcoded_secret_key'' \<or> get_truthy details ''risky_packages''
      then ''medium''
      else ''low'')"

text \<open>The blocks of \<^verbatim>\<open>check_python\<close> after the project was recognised (lines 801 to 975):
  \<^verbatim>\<open>details\<close> as it stands before the security priority is computed.\<close>

definition python_details :: "world \<Rightarrow> string \<Rightarrow> string list \<Rightarrow> pydict" where
  "python_details w project_path found_indicators =
     (let st = ([(''python_indicators'', PList (map PStr found_indicators))], []);
          st = django_block w project_path found_indicators st;
          st = flask_block w project_path found_indicators st;
          st = fastapi_block w project_path found_indicators st;
          st = requirements_block w project_path found_indicators st;
          st = pyproject_block w project_path found_indicators st;
          st = pipfile_block w project_path found_indicators st;
          details = marker_files w project_path
                      [(''wsgi.py'', ''has_wsgi''), (''asgi.py'', ''has_asgi''),
                       (''pytest.ini'', ''has_pytest''), (''tox.ini'', ''has_tox''),
                       (''conftest.py'', ''has_conftest''), (''Dockerfile'', ''has_docker'')]
                      (fst st);
          details = dict_set ''frameworks_detected'' (PList (map PStr (snd st))) details;
          python_version_info = fst (detect_python_version w project_path)
      in if python_version_info \<noteq> [] then dict_update details python_version_info
         else details)"

text \<open>\<^verbatim>\<open>check_python(project_path, verbose)\<close>.\<close>

definition indicators :: "string list" where
  "indicators = [''requirements.txt'', ''setup.py'', ''pyproject.toml'', ''Pipfile'',
                 ''poetry.lock'', ''manage.py'', ''app.py'', ''main.py'']"

definition check_python :: "world \<Rightarrow> string \<Rightarrow> probe_result" where
  "check_python w project_path =
     (let found_indicators = filter (\<lambda>i. exists w (os_path_join project_path i)) indicators
      in
      if found_indicators = [] \<and> python_files_found w project_path < 3 then Inr (None, [])
      else
        (let details = python_details w project_path found_indicators
         in Inr (Some ''python'',
                 dict_set ''security_priority'' (PStr (python_security_priority details)) details)))"

section \<open>analyze_project\<close>

text \<open>\<^verbatim>\<open>if project_type:\<close> on the first component of a probe's result.\<close>

fun type_truthy :: "string option \<Rightarrow> bool" where
  "type_truthy None = False"
| "type_truthy (Some s) = (s \<noteq> [])"

text \<open>A checker with its \<^verbatim>\<open>__name__\<close>.\<close>

type_synonym checker = "string \<times> (world \<Rightarrow> string \<Rightarrow> probe_result)"

definition PROJECT_CHECKERS :: "checker list" where
  "PROJECT_CHECKERS =
     [(''check_spring_boot'', check_spring_boot),
      (''check_java_legacy'', check_java_legacy),
      (''check_angular'', check_angular),
      (''check_vue'', check_vue),
      (''check_python'', check_python),
      (''check_gitlab_ci'', check_gitlab_ci)]"

text \<open>
  The loop of \<^verbatim>\<open>analyze_project\<close> (lines 1018 to 1050) over the checkers that are left.
  The result is the pair the function returns after the loop, and the names of the
  checkers that were called, in call order.
  \<^verbatim>\<open>
    for checker_func in PROJECT_CHECKERS:
        try:
            project_type, tech_details = checker_func(project_path, verbose)
            if project_type:
                detected_project_type = project_type
                detected_technologies.update(tech_details)
                break
        except Exception as e:
            if verbose: print(...)
    if detected_project_type:
        return detected_project_type, detected_technologies
    else:
        return None, {}
  \<close>
\<close>

fun run_checkers :: "checker list \<Rightarrow> world \<Rightarrow> string \<Rightarrow>
    (string option \<times> pydict) \<times> string list" where
  "run_checkers [] w project_path = ((None, []), [])"
| "run_checkers (c # rest) w project_path =
     (case snd c w project_path of
        Inl e \<Rightarrow>
          (let (r, called) = run_checkers rest w project_path in (r, fst c # called))
      | Inr (project_type, tech_details) \<Rightarrow>
          if type_truthy project_type
          then ((project_type, dict_update [] tech_details), [fst c])
          else (let (r, called) = run_checkers rest w project_path in (r, fst c # called)))"

text \<open>\<^verbatim>\<open>analyze_project(project_path, verbose)\<close> with the names of the checkers it called.\<close>

definition analyze_project_trace :: "world \<Rightarrow> string \<Rightarrow> (string option \<times> pydict) \<times> string list" where
  "analyze_project_trace w project_path =
     (if \<not> isdir w project_path then ((None, []), [])
      else run_checkers PROJECT_CHECKERS w project_path)"

definition analyze_project :: "world \<Rightarrow> string \<Rightarrow> string option \<times> pydict" where
  "analyze_project w project_path = fst (analyze_project_trace w project_path)"

text \<open>A checker matches when the loop breaks on it: it returned, and the project type
  it returned is true.\<close>

definition matches :: "world \<Rightarrow> string \<Rightarrow> checker \<Rightarrow> bool" where
  "matches w p c = (case snd c w p of Inl e \<Rightarrow> False | Inr (ty, d) \<Rightarrow> type_truthy ty)"

text \<open>A checker returns a category when it returned and its project type is not
  \<^verbatim>\<open>None\<close>.\<close>

definition returns_category :: "world \<Rightarrow> string \<Rightarrow> checker \<Rightarrow> bool" where
  "returns_category w p c = (case snd c w p of Inr (Some t, d) \<Rightarrow> True | _ \<Rightarrow> False)"

section \<open>utils.py: template files\<close>

text \<open>
  The dictionary \<^verbatim>\<open>{'frontmatter': ..., 'content': ...}\<close> that \<^verbatim>\<open>load_mdc_file\<close> and
  \<^verbatim>\<open>RuleSet.generate\<close> build and \<^verbatim>\<open>save_mdc_file\<close> writes: the front matter is a string or
  \<^verbatim>\<open>None\<close>, the content a string.
\<close>

record mdc =
  mdc_frontmatter :: "string option"
  mdc_content :: string

text \<open>
  \<^verbatim>\<open>load_mdc_file(file_path)\<close>: \<^verbatim>\<open>None\<close> for a missing file or an \<^verbatim>\<open>IOError\<close>; another
  exception of reading (a decoding error) is not caught here.
\<close>

definition load_mdc_file :: "world \<Rightarrow> string \<Rightarrow> exn + mdc option" where
  "load_mdc_file w file_path =
     (if \<not> exists w file_path then Inr None
      else
        (case read_file w file_path of
           Inl (OSError msg) \<Rightarrow> Inr None
         | Inl (Exception msg) \<Rightarrow> Inl (Exception msg)
         | Inr text \<Rightarrow>
             (case frontmatter_match w text of
                Some (frontmatter_text, content_text) \<Rightarrow>
                  Inr (Some \<lparr> mdc_frontmatter = Some (strip frontmatter_text),
                              mdc_content = strip content_text \<rparr>)
              | None \<Rightarrow>
                  Inr (Some \<lparr> mdc_frontmatter = None, mdc_content = strip text \<rparr>))))"

text \<open>\<^verbatim>\<open>os.path.dirname\<close> on POSIX: everything up to the last slash, without trailing
  slashes unless it consists of slashes only.\<close>

definition dirname :: "string \<Rightarrow> string" where
  "dirname p =
     (let head = rev (dropWhile (\<lambda>c. c \<noteq> CHR ''/'') (rev p))
      in if head \<noteq> [] \<and> \<not> list_all (\<lambda>c. c = CHR ''/'') head
         then rev (dropWhile (\<lambda>c. c = CHR ''/'') (rev head))
         else head)"

text \<open>
  \<^verbatim>\<open>os.makedirs(path, exist_ok=True)\<close>: it raises an \<^verbatim>\<open>OSError\<close> on the empty path, on a
  path that is a file, and where the world says so; otherwise the directory exists
  afterwards. The listings of the parent directories are not updated: nothing walks the
  tree after a write.
\<close>

definition os_makedirs :: "world \<Rightarrow> string \<Rightarrow> exn + world" where
  "os_makedirs w path =
     (case makedirs_error w path of
        Some msg \<Rightarrow> Inl (OSError msg)
      | None \<Rightarrow>
          (if path = [] then Inl (OSError ''FileNotFoundError'')
           else
             (case nodes w path of
                Some (File f) \<Rightarrow> Inl (OSError ''FileExistsError'')
              | Some (Dir entries) \<Rightarrow> Inr w
              | None \<Rightarrow> Inr (w \<lparr> nodes := (nodes w)(path \<mapsto> Dir []) \<rparr>))))"

text \<open>
  What \<^verbatim>\<open>save_mdc_file\<close> writes for a dictionary with a front matter key (lines 132 to
  138): the front matter between two lines of three dashes when it is a non-empty
  string, then the content.
\<close>

definition mdc_text :: "mdc \<Rightarrow> string" where
  "mdc_text data =
     (case mdc_frontmatter data of
        None \<Rightarrow> []
      | Some fm \<Rightarrow>
          if fm = [] then []
          else ''---'' @ [CHR 0x0A] @ fm @ [CHR 0x0A] @ ''---'' @ [CHR 0x0A, CHR 0x0A])
     @ mdc_content data"

text \<open>
  \<^verbatim>\<open>save_mdc_file(file_path, data)\<close>: the value it returns and the world it leaves.
  \<^verbatim>\<open>open(file_path, 'w')\<close> creates the file or truncates it, and the text is then written
  into the open file; an \<^verbatim>\<open>OSError\<close> at any point is caught and gives \<^verbatim>\<open>False\<close>, with the
  file left as it stood when the error came.
  \<^verbatim>\<open>
    try:
        os.makedirs(os.path.dirname(file_path), exist_ok=True)
        with open(file_path, 'w', encoding='utf-8') as f:
            ...
        return True
    except IOError as e:
        return False
  \<close>
\<close>

definition save_mdc_file :: "world \<Rightarrow> string \<Rightarrow> mdc \<Rightarrow> bool \<times> world" where
  "save_mdc_file w file_path data =
     (case os_makedirs w (dirname file_path) of
        Inl e \<Rightarrow> (False, w)
      | Inr w1 \<Rightarrow>
          (if open_error w1 file_path \<noteq> None \<or>
              (case nodes w1 file_path of Some (Dir entries) \<Rightarrow> True | _ \<Rightarrow> False)
           then (False, w1)
           else
             (case write_error w1 file_path of
                Some n \<Rightarrow>
                  (False, w1 \<lparr> nodes := (nodes w1)
                               (file_path \<mapsto> File (Readable (take n (mdc_text data)))) \<rparr>)
              | None \<Rightarrow>
                  (True, w1 \<lparr> nodes := (nodes w1)
                              (file_path \<mapsto> File (Readable (mdc_text data))) \<rparr>))))"

section \<open>rule_generator.py: the adaptation of a template\<close>

text \<open>
  Python's dynamic operations on a value read with \<^verbatim>\<open>detected_tech.get(key)\<close>, where
  \<open>None\<close> stands for the \<^verbatim>\<open>None\<close> of a missing key:
  \<^item> \<^verbatim>\<open>if v:\<close>;
  \<^item> \<^verbatim>\<open>v == n\<close> for an integer literal (\<^verbatim>\<open>True == 1\<close> holds in Python) and \<^verbatim>\<open>v == "s"\<close>;
  \<^item> \<^verbatim>\<open>v >= n\<close>, \<^verbatim>\<open>v > n\<close> and \<^verbatim>\<open>v < n\<close>, which raise \<^verbatim>\<open>TypeError\<close> unless \<open>v\<close> is a number;
  \<^item> \<^verbatim>\<open>', '.join(v)\<close>, which needs an iterable of strings;
  \<^item> \<^verbatim>\<open>{...}.get(v, default)\<close> on a table with string keys, which raises \<^verbatim>\<open>TypeError\<close> on
    an unhashable key; the table gives the line of the string literal found.
\<close>

fun opt_truthy :: "pyval option \<Rightarrow> bool" where
  "opt_truthy None = False"
| "opt_truthy (Some v) = truthy v"

fun py_eq_int :: "pyval option \<Rightarrow> int \<Rightarrow> bool" where
  "py_eq_int (Some (PInt k)) n = (k = n)"
| "py_eq_int (Some (PBool b)) n = ((if b then 1 else 0) = n)"
| "py_eq_int v n = False"

fun py_eq_str :: "pyval option \<Rightarrow> string \<Rightarrow> bool" where
  "py_eq_str (Some (PStr t)) s = (t = s)"
| "py_eq_str v s = False"

fun py_cmp_int :: "(int \<Rightarrow> int \<Rightarrow> bool) \<Rightarrow> pyval option \<Rightarrow> int \<Rightarrow> exn + bool" where
  "py_cmp_int rel (Some (PInt k)) n = Inr (rel k n)"
| "py_cmp_int rel (Some (PBool b)) n = Inr (rel (if b then 1 else 0) n)"
| "py_cmp_int rel v n = Inl (Exception ''TypeError'')"

fun join_strings :: "string \<Rightarrow> string list \<Rightarrow> string" where
  "join_strings sep [] = []"
| "join_strings sep [x] = x"
| "join_strings sep (x # y # ys) = x @ sep @ join_strings sep (y # ys)"

fun as_str :: "pyval \<Rightarrow> string option" where
  "as_str (PStr s) = Some s"
| "as_str v = None"

definition py_join :: "string \<Rightarrow> pyval \<Rightarrow> exn + string" where
  "py_join sep v =
     (case v of
        PList xs \<Rightarrow>
          if list_all (\<lambda>x. as_str x \<noteq> None) xs
          then Inr (join_strings sep (map (\<lambda>x. case as_str x of Some s \<Rightarrow> s | None \<Rightarrow> []) xs))
          else Inl (Exception ''TypeError'')
      | PStr t \<Rightarrow> Inr (join_strings sep (map (\<lambda>c. [c]) t))
      | PDict d \<Rightarrow> Inr (join_strings sep (map fst d))
      | _ \<Rightarrow> Inl (Exception ''TypeError''))"

definition table_get :: "(string \<times> nat) list \<Rightarrow> pyval \<Rightarrow> exn + nat option" where
  "table_get table v =
     (case v of
        PStr s \<Rightarrow> Inr (map_of table s)
      | PList xs \<Rightarrow> Inl (Exception ''TypeError'')
      | PDict d \<Rightarrow> Inl (Exception ''TypeError'')
      | _ \<Rightarrow> Inr None)"

text \<open>\<^verbatim>\<open>d.get(k, default)\<close>.\<close>

definition get_default :: "pydict \<Rightarrow> string \<Rightarrow> pyval \<Rightarrow> pyval" where
  "get_default d k dflt = (case dict_get d k of None \<Rightarrow> dflt | Some v \<Rightarrow> v)"

text \<open>
  The blocks an adapter appends come from statements that run in order; the first
  that raises ends the adapter with its exception.
\<close>

fun collect :: "(exn + string list) list \<Rightarrow> exn + string list" where
  "collect [] = Inr []"
| "collect (Inl e # rest) = Inl e"
| "collect (Inr xs # rest) = (case collect rest of Inl e \<Rightarrow> Inl e | Inr ys \<Rightarrow> Inr (xs @ ys))"

text \<open>One block when the condition holds.\<close>

definition block_if :: "bool \<Rightarrow> string \<Rightarrow> exn + string list" where
  "block_if b x = Inr (if b then [x] else [])"

text \<open>The last lines of each adapter:
  \<^verbatim>\<open>if adaptations: content += "\n" + "\n".join(adaptations)\<close>.\<close>

definition append_adaptations :: "string \<Rightarrow> exn + string list \<Rightarrow> exn + string" where
  "append_adaptations content r =
     (case r of
        Inl e \<Rightarrow> Inl e
      | Inr adaptations \<Rightarrow>
          Inr (if adaptations \<noteq> []
               then content @ [CHR 0x0A] @ join_strings [CHR 0x0A] adaptations
               else content))"

text \<open>\<^verbatim>\<open>_adapt_rules_for_angular\<close> (lines 44 to 132).\<close>

definition adapt_rules_for_angular :: "world \<Rightarrow> pydict \<Rightarrow> string \<Rightarrow> exn + string" where
  "adapt_rules_for_angular w tech content =
     (let major_version = dict_get tech ''angular_major_version'' in
      append_adaptations content (collect
        [Inr (if opt_truthy major_version
              then [text_block w 50 [get_default tech ''angular_major_version'' PNone]] @
                   (if get_truthy tech ''supports_standalone'' then [text_block w 54 []] else []) @
                   (if get_truthy tech ''supports_signals'' then [text_block w 64 []] else []) @
                   (if get_truthy tech ''new_control_flow'' then [text_block w 76 []] else [])
              else []),
         block_if (get_truthy tech ''uses_angular_material'') (text_block w 89 []),
         block_if (get_truthy tech ''uses_ngrx'') (text_block w 97 []),
         block_if (get_truthy tech ''is_pwa'') (text_block w 109 []),
         block_if (get_truthy tech ''has_ssr'') (text_block w 119 [])]))"

text \<open>
  The security priority line of an adapter (for example lines 194 to 205): the
  priority is looked up in the adapter's table, and the block at line \<open>n\<close> is appended
  with the text found.
\<close>

definition priority_block :: "world \<Rightarrow> pydict \<Rightarrow> (string \<times> nat) list \<Rightarrow> nat \<Rightarrow> exn + string list" where
  "priority_block w tech table n =
     (case dict_get tech ''security_priority'' of
        None \<Rightarrow> Inr []
      | Some security_priority \<Rightarrow>
          if \<not> truthy security_priority then Inr []
          else
            (case table_get table security_priority of
               Inl e \<Rightarrow> Inl e
             | Inr None \<Rightarrow> Inr []
             | Inr (Some line) \<Rightarrow> Inr [text_block w n [PStr (text_block w line [])]]))"

text \<open>The names of the features whose flag is true, in the order of the checks.\<close>

definition features :: "pydict \<Rightarrow> (string \<times> string) list \<Rightarrow> string list" where
  "features tech flags = map snd (filter (\<lambda>(k, name). get_truthy tech k) flags)"

text \<open>\<^verbatim>\<open>_adapt_rules_for_spring_boot\<close> (lines 134 to 362). \<^verbatim>\<open>major_version >= 3\<close> is reached
  when a version string is present and the major version is neither 1 nor 2.\<close>

definition spring_boot_header :: "world \<Rightarrow> pydict \<Rightarrow> exn + string list" where
  "spring_boot_header w tech =
     (let major_version = dict_get tech ''spring_boot_major_version'';
          full_version = dict_get tech ''spring_boot_version'';
          banner = text_block w 143 [get_default tech ''spring_boot_version'' PNone]
      in if opt_truthy full_version then
           (if py_eq_int major_version 1 then Inr [banner, text_block w 149 []]
            else if py_eq_int major_version 2 then Inr [banner, text_block w 154 []]
            else
              (case py_cmp_int (\<ge>) major_version 3 of
                 Inl e \<Rightarrow> Inl e
               | Inr latest \<Rightarrow> Inr (banner # (if latest then [text_block w 158 []] else []))))
         else block_if (opt_truthy major_version)
                (text_block w 163 [get_default tech ''spring_boot_major_version'' PNone]))"

definition adapt_rules_for_spring_boot :: "world \<Rightarrow> pydict \<Rightarrow> string \<Rightarrow> exn + string" where
  "adapt_rules_for_spring_boot w tech content =
     (let detected_features = features tech
            [(''uses_spring_security'', ''Spring Security''),
             (''uses_spring_data_jpa'', ''Spring Data JPA''),
             (''uses_actuator'', ''Spring Boot Actuator''),
             (''uses_webflux'', ''Spring WebFlux''),
             (''uses_spring_cloud'', ''Spring Cloud''),
             (''database_h2'', ''H2 Database''),
             (''database_mysql'', ''MySQL''),
             (''database_postgresql'', ''PostgreSQL'')]
      in append_adaptations content (collect
        [spring_boot_header w tech,
         block_if (detected_features \<noteq> [])
           (text_block w 188 [PStr (join_strings '', '' detected_features)]),
         priority_block w tech [(''high'', 197), (''medium'', 198), (''low'', 199)] 203,
         Inr (if opt_truthy (dict_get tech ''spring_boot_major_version'') then
                (if get_truthy tech ''is_legacy'' then [text_block w 210 []]
                 else if get_truthy tech ''is_modern'' then [text_block w 230 []]
                 else if get_truthy tech ''is_latest'' then [text_block w 242 []]
                 else [])
              else []),
         block_if (get_truthy tech ''uses_spring_security'') (text_block w 259 []),
         block_if (get_truthy tech ''uses_actuator'') (text_block w 277 []),
         block_if (get_truthy tech ''uses_spring_data_jpa'') (text_block w 295 []),
         block_if (get_truthy tech ''database_h2'' \<and> get_truthy tech ''h2_console_risk'')
           (text_block w 307 []),
         block_if (get_truthy tech ''uses_webflux'') (text_block w 321 []),
         block_if (get_truthy tech ''uses_spring_cloud'') (text_block w 333 []),
         block_if (py_eq_str (dict_get tech ''security_priority'') ''high'') (text_block w 349 [])]))"

text \<open>\<^verbatim>\<open>_adapt_rules_for_java_legacy_spring\<close> (lines 364 to 687). \<^verbatim>\<open>jsp_count > 0\<close> is evaluated
  twice, at lines 426 and 602; two feature names that are not ASCII are taken from their
  lines.\<close>

definition java_legacy_header :: "world \<Rightarrow> pydict \<Rightarrow> string list" where
  "java_legacy_header w tech =
     (if get_truthy tech ''spring_framework_version'' then
        [text_block w 374 [get_default tech ''spring_framework_version'' PNone],
         (if get_truthy tech ''is_very_legacy'' then text_block w 380 []
          else if get_truthy tech ''is_legacy'' then text_block w 385 []
          else if get_truthy tech ''is_old'' then text_block w 390 []
          else text_block w 395 [])]
      else if get_truthy tech ''spring_major_version'' then
        [text_block w 399 [get_default tech ''spring_major_version'' PNone]]
      else [])"

definition adapt_rules_for_java_legacy_spring :: "world \<Rightarrow> pydict \<Rightarrow> string \<Rightarrow> exn + string" where
  "adapt_rules_for_java_legacy_spring w tech content =
     (let major_version = dict_get tech ''spring_major_version'';
          jsp_count = get_default tech ''jsp_files_count'' (PInt 0);
          flagged = features tech
            [(''uses_spring_security'', ''Spring Security''),
             (''uses_spring_webmvc'', ''Spring WebMVC''),
             (''uses_spring_orm'', ''Spring ORM''),
             (''uses_hibernate'', ''Hibernate ORM''),
             (''uses_struts'', text_block w 415 []),
             (''uses_log4j'', text_block w 417 []),
             (''database_mysql'', ''MySQL''),
             (''database_oracle'', ''Oracle DB''),
             (''database_sqlserver'', ''SQL Server'')];
          databases = features tech
            [(''database_mysql'', ''MySQL''), (''database_oracle'', ''Oracle''),
             (''database_sqlserver'', ''SQL Server'')]
      in append_adaptations content (collect
        [Inr (java_legacy_header w tech),
         (case py_cmp_int (>) (Some jsp_count) 0 of
            Inl e \<Rightarrow> Inl e
          | Inr has_jsp \<Rightarrow>
              (let detected_features = flagged @ (if has_jsp then [text_block w 427 [jsp_count]] else [])
               in block_if (detected_features \<noteq> [])
                    (text_block w 430 [PStr (join_strings '', '' detected_features)]))),
         priority_block w tech
           [(''critical'', 439), (''high'', 440), (''medium'', 441), (''low'', 442)] 446,
         Inr (if get_truthy tech ''servlet_version'' then
                text_block w 453 [get_default tech ''servlet_version'' PNone] #
                (if get_truthy tech ''servlet_very_legacy'' then [text_block w 457 []]
                 else if get_truthy tech ''servlet_legacy'' then [text_block w 460 []]
                 else [])
              else []),
         Inr (if opt_truthy major_version then
                (if py_eq_int major_version 1 then [text_block w 466 []]
                 else if py_eq_int major_version 2 then [text_block w 486 []]
                 else if py_eq_int major_version 3 then [text_block w 504 []]
                 else [])
              else []),
         block_if (get_truthy tech ''uses_spring_security'') (text_block w 519 []),
         block_if (get_truthy tech ''uses_struts'')
           (text_block w 540 [get_default tech ''struts_version'' (PStr [])]),
         block_if (get_truthy tech ''uses_hibernate'')
           (text_block w 561 [get_default tech ''hibernate_version'' (PStr [])]),
         block_if (get_truthy tech ''uses_log4j'' \<and> get_truthy tech ''log4j_security_risk'')
           (text_block w 583 [get_default tech ''log4j_version'' (PStr [])]),
         (case py_cmp_int (>) (Some jsp_count) 0 of
            Inl e \<Rightarrow> Inl e
          | Inr has_jsp \<Rightarrow> block_if has_jsp (text_block w 603 [jsp_count])),
         block_if (databases \<noteq> []) (text_block w 634 [PStr (join_strings '', '' databases)]),
         block_if (get_truthy tech ''is_maven'') (text_block w 649 []),
         block_if (get_truthy tech ''is_gradle'') (text_block w 659 []),
         block_if (py_eq_str (dict_get tech ''security_priority'') ''critical'')
           (text_block w 670 [])]))"

text \<open>\<^verbatim>\<open>_adapt_rules_for_python\<close> (lines 689 to 972). The version lines 713 to 738 are one
  entry of \<^verbatim>\<open>adaptations\<close>, built by concatenation.\<close>

definition python_version_info :: "world \<Rightarrow> pydict \<Rightarrow> exn + string" where
  "python_version_info w tech =
     (let python_source = get_default tech ''python_source'' PNone;
          python_major = Some (get_default tech ''python_major_version'' (PStr []));
          python_minor = get_default tech ''python_minor_version'' (PStr []);
          start = text_block w 713 [get_default tech ''python_version'' PNone] @
                  (if get_truthy tech ''python_path''
                   then text_block w 715 [get_default tech ''python_path'' PNone] else [])
      in case table_get [(''venv'', 719), (''pyenv'', 720), (''pyproject'', 721),
                         (''pipfile'', 722), (''setup.py'', 723), (''system'', 724)] python_source of
           Inl e \<Rightarrow> Inl e
         | Inr found \<Rightarrow>
             (let source_label = (case found of None \<Rightarrow> python_source
                                  | Some line \<Rightarrow> PStr (text_block w line []));
                  version_info = start @ text_block w 727 [source_label] @
                    (if get_truthy tech ''is_venv'' \<and> get_truthy tech ''venv_path''
                     then text_block w 730 [get_default tech ''venv_path'' PNone] else [])
              in if py_eq_int python_major 2 then Inr (version_info @ text_block w 734 [])
                 else if \<not> (py_eq_int python_major 3 \<and> truthy python_minor) then Inr version_info
                 else
                   (case py_cmp_int (<) (Some python_minor) 8 of
                      Inl e \<Rightarrow> Inl e
                    | Inr True \<Rightarrow> Inr (version_info @ text_block w 736 [python_minor])
                    | Inr False \<Rightarrow>
                        (case py_cmp_int (\<ge>) (Some python_minor) 11 of
                           Inl e \<Rightarrow> Inl e
                         | Inr True \<Rightarrow> Inr (version_info @ text_block w 738 [python_minor])
                         | Inr False \<Rightarrow> Inr version_info))))"

text \<open>A block whose one argument is \<^verbatim>\<open>', '.join(v)\<close>, appended when \<open>v\<close> is true.\<close>

definition joined_block :: "world \<Rightarrow> nat \<Rightarrow> pyval \<Rightarrow> exn + string list" where
  "joined_block w n v =
     (if \<not> truthy v then Inr []
      else (case py_join '', '' v of
              Inl e \<Rightarrow> Inl e
            | Inr t \<Rightarrow> Inr [text_block w n [PStr t]]))"

definition python_header :: "world \<Rightarrow> pydict \<Rightarrow> exn + string list" where
  "python_header w tech =
     (let frameworks = get_default tech ''frameworks_detected'' (PList []);
          python_indicators = get_default tech ''python_indicators'' (PList [])
      in if \<not> (truthy frameworks \<or> truthy python_indicators \<or> get_truthy tech ''python_version'')
         then Inr []
         else collect
           [Inr [text_block w 703 []],
            (if get_truthy tech ''python_version''
             then (case python_version_info w tech of Inl e \<Rightarrow> Inl e | Inr t \<Rightarrow> Inr [t])
             else Inr []),
            joined_block w 743 frameworks,
            joined_block w 748 python_indicators])"

definition adapt_rules_for_python :: "world \<Rightarrow> pydict \<Rightarrow> string \<Rightarrow> exn + string" where
  "adapt_rules_for_python w tech content =
     append_adaptations content (collect
       [python_header w tech,
        priority_block w tech [(''high'', 755), (''medium'', 756), (''low'', 757)] 761,
        Inr (if get_truthy tech ''is_django'' then
               [text_block w 767 [get_default tech ''django_version'' (PStr (text_block w 766 []))]] @
               (if get_truthy tech ''debug_enabled'' then [text_block w 791 []] else []) @
               (if get_truthy tech ''hardcoded_secret_key'' then [text_block w 799 []] else []) @
               (if get_truthy tech ''database_sqlite'' then [text_block w 808 []]
                else if get_truthy tech ''database_postgresql'' then [text_block w 815 []]
                else if get_truthy tech ''database_mysql'' then [text_block w 822 []]
                else [])
             else []),
        Inr (if get_truthy tech ''is_flask'' then
               [text_block w 832 [get_default tech ''flask_version'' (PStr (text_block w 831 []))]] @
               (if get_truthy tech ''debug_enabled'' then [text_block w 854 []] else [])
             else []),
        block_if (get_truthy tech ''is_fastapi'')
          (text_block w 866 [get_default tech ''fastapi_version'' (PStr (text_block w 865 []))]),
        block_if (get_truthy tech ''is_poetry'') (text_block w 889 []),
        block_if (get_truthy tech ''is_pipenv'') (text_block w 897 []),
        (if get_truthy tech ''requirements''
         then joined_block w 911 (get_default tech ''risky_packages'' (PList []))
         else Inr []),
        block_if (get_truthy tech ''has_wsgi'') (text_block w 923 []),
        block_if (get_truthy tech ''has_asgi'') (text_block w 931 []),
        block_if (get_truthy tech ''has_pytest'') (text_block w 940 []),
        block_if (get_truthy tech ''has_tox'') (text_block w 950 []),
        block_if (get_truthy tech ''has_docker'') (text_block w 959 [])])"

text \<open>
  A \<^verbatim>\<open>RuleSet\<close> object as its constructor leaves it (lines 19 to 24): a false
  \<^verbatim>\<open>detected_tech\<close> or \<^verbatim>\<open>custom_rules_data\<close> becomes the empty dictionary. The custom rules
  the tool passes are the text of the custom file, or \<^verbatim>\<open>None\<close>.
\<close>

record RuleSet =
  rs_project_type :: string
  rs_detected_tech :: pydict
  rs_custom_rules_data :: "string option"
  rs_verbose :: bool

definition new_RuleSet :: "string \<Rightarrow> pydict \<Rightarrow> string option \<Rightarrow> bool \<Rightarrow> RuleSet" where
  "new_RuleSet ty tech custom verb =
     \<lparr> rs_project_type = ty, rs_detected_tech = tech,
       rs_custom_rules_data = (case custom of None \<Rightarrow> None
                               | Some c \<Rightarrow> if c = [] then None else Some c),
       rs_verbose = verb \<rparr>"

definition PROJECT_TYPES_TEMPLATES :: "(string \<times> string) list" where
  "PROJECT_TYPES_TEMPLATES =
     [(''java_legacy_spring'', ''java_legacy_spring.mdc''),
      (''springboot'', ''spring_boot.mdc''),
      (''angular'', ''angular.mdc''),
      (''vue'', ''vue.mdc''),
      (''python'', ''python.mdc''),
      (''gitlab_ci'', ''gitlab_ci.mdc'')]"

text \<open>The template of a project type without one, and of a template file that cannot
  be loaded: \<^verbatim>\<open>{"frontmatter": None, "content": ""}\<close>.\<close>

definition empty_template :: mdc where
  "empty_template = \<lparr> mdc_frontmatter = None, mdc_content = [] \<rparr>"

text \<open>\<^verbatim>\<open>RuleSet._load_base_template\<close> (lines 26 to 42).\<close>

definition load_base_template :: "world \<Rightarrow> RuleSet \<Rightarrow> exn + mdc" where
  "load_base_template w self =
     (case map_of PROJECT_TYPES_TEMPLATES (rs_project_type self) of
        None \<Rightarrow> Inr empty_template
      | Some template_filename \<Rightarrow>
          (case load_mdc_file w (os_path_join (TEMPLATES_DIR w) template_filename) of
             Inl e \<Rightarrow> Inl e
           | Inr None \<Rightarrow> Inr empty_template
           | Inr (Some base_rules_data) \<Rightarrow> Inr base_rules_data))"

text \<open>
  \<^verbatim>\<open>RuleSet._adapt_rules\<close> (lines 974 to 1001): the value it returns or the exception it
  raises, and the lines it prints to standard output.
  \<^verbatim>\<open>
    if not self.detected_tech:
        return base_rules_content
    adapted_content = base_rules_content
    if self.project_type == "angular":
        adapted_content = self._adapt_rules_for_angular(adapted_content)
        if self.verbose and self.detected_tech:
            print(f"Adapted Angular rules based on detected features: ...")
    elif self.project_type == "springboot": ...
    elif self.project_type == "java_legacy_spring": ...
    elif self.project_type == "python": ...
    return adapted_content
  \<close>
  The printed line is \<open>text_block\<close> of its source line with the list of keys.
\<close>

definition adapted_with :: "world \<Rightarrow> RuleSet \<Rightarrow> nat \<Rightarrow> exn + string \<Rightarrow> (exn + string) \<times> string list" where
  "adapted_with w self line r =
     (case r of
        Inl e \<Rightarrow> (Inl e, [])
      | Inr adapted_content \<Rightarrow>
          (Inr adapted_content,
           if rs_verbose self \<and> rs_detected_tech self \<noteq> []
           then [text_block w line [PList (map (PStr \<circ> fst) (rs_detected_tech self))]]
           else []))"

definition adapt_rules :: "world \<Rightarrow> RuleSet \<Rightarrow> string \<Rightarrow> (exn + string) \<times> string list" where
  "adapt_rules w self base_rules_content =
     (let tech = rs_detected_tech self in
      if tech = [] then (Inr base_rules_content, [])
      else if rs_project_type self = ''angular'' then
        adapted_with w self 984 (adapt_rules_for_angular w tech base_rules_content)
      else if rs_project_type self = ''springboot'' then
        adapted_with w self 989 (adapt_rules_for_spring_boot w tech base_rules_content)
      else if rs_project_type self = ''java_legacy_spring'' then
        adapted_with w self 994 (adapt_rules_for_java_legacy_spring w tech base_rules_content)
      else if rs_project_type self = ''python'' then
        adapted_with w self 999 (adapt_rules_for_python w tech base_rules_content)
      else (Inr base_rules_content, []))"

text \<open>
  \<^verbatim>\<open>RuleSet.generate\<close> (lines 1003 to 1017). The custom rules of the object are not read:
  the place where they would be merged is the comment
  \<^verbatim>\<open># TODO: Add custom rules merging logic here if needed\<close>.
\<close>

definition generate :: "world \<Rightarrow> RuleSet \<Rightarrow> exn + mdc" where
  "generate w self =
     (case load_base_template w self of
        Inl e \<Rightarrow> Inl e
      | Inr base_rules_data \<Rightarrow>
          (case fst (adapt_rules w self (mdc_content base_rules_data)) of
             Inl e \<Rightarrow> Inl e
           | Inr adapted_content \<Rightarrow>
               Inr \<lparr> mdc_frontmatter = mdc_frontmatter base_rules_data,
                     mdc_content = adapted_content \<rparr>))"

text \<open>\<^verbatim>\<open>generate_rules\<close> (lines 1021 to 1029): \<^verbatim>\<open>None\<close> for a false project type.\<close>

definition generate_rules :: "world \<Rightarrow> string option \<Rightarrow> pydict \<Rightarrow> string option \<Rightarrow> bool \<Rightarrow>
    exn + mdc option" where
  "generate_rules w project_type_arg tech custom verb =
     (case project_type_arg of
        None \<Rightarrow> Inr None
      | Some ty \<Rightarrow>
          if ty = [] then Inr None
          else (case generate w (new_RuleSet ty tech custom verb) of
                  Inl e \<Rightarrow> Inl e
                | Inr rules \<Rightarrow> Inr (Some rules)))"

section \<open>Example worlds\<close>

text \<open>A machine with an empty file system, no interpreter and no match of any probe.\<close>

definition bare_world :: world where
  "bare_world =
     \<lparr> nodes = (\<lambda>p. None), et_parse = (\<lambda>p. ParseError), re_search = (\<lambda>pat s. None),
       subprocess_run = (\<lambda>args t. FileNotFoundError), is_windows = False,
       abspath = (\<lambda>p. p), CURSOR_WORKSPACE = None, getcwd = ''/'',
       TEMPLATES_DIR = ''/opt/ruleforge/templates'',
       java_legacy = (\<lambda>p. NoMatch), angular = (\<lambda>p. NoMatch), vue = (\<lambda>p. NoMatch),
       frontmatter_match = (\<lambda>s. None), text_block = (\<lambda>n args. ''# block''),
       makedirs_error = (\<lambda>p. None), open_error = (\<lambda>p. None), write_error = (\<lambda>p. None) \<rparr>"

text \<open>A project that holds a pipeline file only, and on which \<^verbatim>\<open>check_vue\<close> raises.\<close>

definition ci_world :: world where
  "ci_world = bare_world
     \<lparr> nodes := map_of
         [(''/proj'', Dir [(''.gitlab-ci.yml'', File (Readable ''stages: [build]''))]),
          (''/proj/.gitlab-ci.yml'', File (Readable ''stages: [build]''))],
       vue := (\<lambda>p. Raises (Exception ''TypeError'')) \<rparr>"

text \<open>The same project when \<^verbatim>\<open>check_angular\<close> recognises it.\<close>

definition angular_world :: world where
  "angular_world = ci_world \<lparr> angular := (\<lambda>p. Match [(''angular_major_version'', PInt 17)]) \<rparr>"

text \<open>The keys the security priority of \<^verbatim>\<open>check_python\<close> is computed from, and the
  property that each of them, where present, holds a true value.\<close>

definition risk_keys :: "string set" where
  "risk_keys = {''debug_enabled'', ''hardcoded_secret_key'', ''risky_packages''}"

definition risk_flags_true :: "pydict \<Rightarrow> bool" where
  "risk_flags_true d = (\<forall>k \<in> risk_keys. \<forall>v. dict_get d k = Some v \<longrightarrow> truthy v)"

text \<open>A Flask application in debug mode.\<close>

definition flask_world :: world where
  "flask_world = bare_world
     \<lparr> nodes := map_of
         [(''/site'', Dir [(''app.py'', File (Readable ''from flask import Flask; app.run(debug=True)''))]),
          (''/site/app.py'', File (Readable ''from flask import Flask; app.run(debug=True)''))] \<rparr>"

text \<open>A Maven project whose \<^verbatim>\<open>pom.xml\<close> declares the parent \<^verbatim>\<open>spring-boot-starter-parent\<close>
  in the given version, with the given dependencies, and nothing else.\<close>

definition pom_element :: "string \<Rightarrow> element list \<Rightarrow> element" where
  "pom_element version deps =
     Element (m ''project'') None
       [Element (m ''parent'') None
          [Element (m ''groupId'') (Some ''org.springframework.boot'') [],
           Element (m ''artifactId'') (Some ''spring-boot-starter-parent'') [],
           Element (m ''version'') (Some version) []],
        Element (m ''dependencies'') None deps]"

definition dependency :: "string \<Rightarrow> string option \<Rightarrow> element" where
  "dependency group_text artifact =
     Element (m ''dependency'') None
       [Element (m ''groupId'') (Some group_text) [], Element (m ''artifactId'') artifact []]"

definition pom_world :: "string \<Rightarrow> element list \<Rightarrow> world" where
  "pom_world version deps = bare_world
     \<lparr> nodes := map_of
         [(''/app'', Dir [(''pom.xml'', File (Readable ''<project/>''))]),
          (''/app/pom.xml'', File (Readable ''<project/>''))],
       et_parse := (\<lambda>p. if p = ''/app/pom.xml'' then Parsed (pom_element version deps)
                         else XmlError ''FileNotFoundError'') \<rparr>"

text \<open>The keys the version block of \<^verbatim>\<open>check_spring_boot\<close> writes, and the condition under
  which its dependency scan raises nothing: every \<^verbatim>\<open>artifactId\<close> element of a dependency has
  text.\<close>

definition version_keys :: "string set" where
  "version_keys = {''spring_boot_version'', ''spring_boot_major_version'', ''is_legacy'',
                   ''is_modern'', ''is_latest'', ''requires_java17'', ''security_priority''}"

definition artifacts_named :: "element \<Rightarrow> bool" where
  "artifacts_named root =
     (case elem_find root (m ''dependencies'') of
        None \<Rightarrow> True
      | Some dependencies \<Rightarrow>
          list_all (\<lambda>dep. case elem_find dep (m ''artifactId'') of
                             None \<Rightarrow> True | Some a \<Rightarrow> etext a \<noteq> None)
            (elem_findall dependencies (m ''dependency'')))"

text \<open>A service with a virtual environment, on a machine where every child process
  runs into its timeout.\<close>

definition timeout_world :: world where
  "timeout_world = bare_world
     \<lparr> nodes := map_of
         [(''/svc'', Dir [(''.venv'', Dir [(''bin'', Dir [(''python'', File (Readable ''''))])])]),
          (''/svc/.venv'', Dir [(''bin'', Dir [(''python'', File (Readable ''''))])]),
          (''/svc/.venv/bin'', Dir [(''python'', File (Readable ''''))]),
          (''/svc/.venv/bin/python'', File (Readable ''''))],
       subprocess_run := (\<lambda>args t. TimeoutExpired) \<rparr>"

section \<open>Properties of the probe pipeline\<close>

lemma dict_get_set: "dict_get (dict_set k v d) k' = (if k' = k then Some v else dict_get d k')"
  by (induction d) auto

lemma dict_get_update:
  "dict_get (dict_update d e) k = (case dict_get (rev e) k of None \<Rightarrow> dict_get d k | Some v \<Rightarrow> Some v)"
proof (induction e arbitrary: d)
  case Nil
  then show ?case by simp
next
  case (Cons x e)
  obtain k' v' where x: "x = (k', v')" by (cases x)
  have app: "dict_get (a @ [(k', v')]) k =
      (case dict_get a k of None \<Rightarrow> (if k' = k then Some v' else None) | Some v \<Rightarrow> Some v)" for a
    by (induction a) auto
  show ?case
    using Cons.IH [of "dict_set k' v' d"]
    by (auto simp: x app dict_get_set split: option.splits)
qed

lemma dict_get_rev_None: "dict_get (rev e) k = None \<longleftrightarrow> dict_get e k = None"
proof -
  have "dict_get a k = None \<longleftrightarrow> k \<notin> fst ` set a" for a
    by (induction a) (auto split: if_splits)
  then show ?thesis by simp
qed

lemma run_checkers_none:
  "\<forall>c \<in> set cs. \<not> matches w p c \<Longrightarrow> run_checkers cs w p = ((None, []), map fst cs)"
  by (induction cs) (auto simp: matches_def split: sum.splits prod.splits)

lemma run_checkers_skip:
  "\<forall>c \<in> set pre. \<not> matches w p c \<Longrightarrow>
   run_checkers (pre @ post) w p =
     (fst (run_checkers post w p), map fst pre @ snd (run_checkers post w p))"
  by (induction pre) (auto simp: matches_def split: sum.splits prod.splits)

lemma run_checkers_hit:
  "snd c w p = Inr (ty, d) \<Longrightarrow> type_truthy ty \<Longrightarrow>
   run_checkers (c # post) w p = ((ty, dict_update [] d), [fst c])"
  by simp

lemma as_probe_type: "as_probe ty oc = Inr (Some t, d) \<Longrightarrow> t = ty"
  by (cases oc) auto

lemma project_type_nonempty:
  "c \<in> set PROJECT_CHECKERS \<Longrightarrow> snd c w p = Inr (Some t, d) \<Longrightarrow> t \<noteq> []"
  unfolding PROJECT_CHECKERS_def
  by (auto simp: check_spring_boot_def check_java_legacy_def check_angular_def check_vue_def
      check_python_def check_gitlab_ci_def Let_def dest: as_probe_type
      split: if_splits prod.splits)

lemma matches_returns:
  "c \<in> set PROJECT_CHECKERS \<Longrightarrow> matches w p c = returns_category w p c"
  by (auto simp: matches_def returns_category_def dest: project_type_nonempty
      split: sum.splits prod.splits option.splits)

lemma first_match_found:
  assumes dir: "isdir w p"
    and decomp: "PROJECT_CHECKERS = pre @ c # post"
    and pre: "\<forall>c' \<in> set pre. \<not> returns_category w p c'"
    and hit: "snd c w p = Inr (Some t, d)"
  shows "analyze_project_trace w p = ((Some t, dict_update [] d), map fst pre @ [fst c])"
proof -
  have "c \<in> set PROJECT_CHECKERS" using decomp [symmetric] by (metis in_set_conv_decomp)
  then have t: "type_truthy (Some t)" using hit project_type_nonempty by fastforce
  have "\<forall>c' \<in> set pre. \<not> matches w p c'"
    using pre decomp [symmetric] matches_returns by (metis Un_iff set_append)
  then have "run_checkers (pre @ c # post) w p =
      (fst (run_checkers (c # post) w p), map fst pre @ snd (run_checkers (c # post) w p))"
    by (rule run_checkers_skip)
  also have "run_checkers (c # post) w p = ((Some t, dict_update [] d), [fst c])"
    using hit t by (rule run_checkers_hit)
  finally show ?thesis using dir decomp by (simp add: analyze_project_trace_def)
qed

lemma no_match_found:
  assumes dir: "isdir w p"
    and none: "\<forall>c \<in> set PROJECT_CHECKERS. \<not> returns_category w p c"
  shows "analyze_project_trace w p = ((None, []), map fst PROJECT_CHECKERS)"
proof -
  have "\<forall>c \<in> set PROJECT_CHECKERS. \<not> matches w p c"
    using none matches_returns by blast
  then show ?thesis using dir by (simp add: analyze_project_trace_def run_checkers_none)
qed


lemma dict_set_fresh: "k \<notin> fst ` set a \<Longrightarrow> dict_set k v a = a @ [(k, v)]"
  by (induction a) auto

lemma dict_update_distinct: "distinct (map fst (a @ d)) \<Longrightarrow> dict_update a d = a @ d"
proof (induction d arbitrary: a)
  case Nil
  then show ?case by simp
next
  case (Cons x d)
  obtain k v where x: "x = (k, v)" by (cases x)
  have fresh: "k \<notin> fst ` set a" using Cons.prems by (auto simp: x)
  have "distinct (map fst ((a @ [(k, v)]) @ d))" using Cons.prems by (simp add: x)
  then have "dict_update (a @ [(k, v)]) d = (a @ [(k, v)]) @ d" by (rule Cons.IH)
  then show ?case using fresh by (simp add: x dict_set_fresh)
qed

text \<open>
  C1. On a directory, \<^verbatim>\<open>analyze_project\<close> calls the checkers of \<^verbatim>\<open>PROJECT_CHECKERS\<close> in
  order and stops at the first that returns a category.
\<close>

theorem analyze_project_first_match:
  "(\<not> isdir w p \<longrightarrow> analyze_project_trace w p = ((None, []), [])) \<and>
   (isdir w p \<and> (\<forall>c \<in> set PROJECT_CHECKERS. \<not> returns_category w p c) \<longrightarrow>
      analyze_project_trace w p = ((None, []), map fst PROJECT_CHECKERS)) \<and>
   (isdir w p \<and> PROJECT_CHECKERS = pre @ c # post \<and>
    (\<forall>c' \<in> set pre. \<not> returns_category w p c') \<and> snd c w p = Inr (Some t, d) \<longrightarrow>
      analyze_project_trace w p = ((Some t, dict_update [] d), map fst pre @ [fst c]) \<and>
      (distinct (map fst d) \<longrightarrow> dict_update [] d = d))"
  using no_match_found [of w p] first_match_found [of w p pre c post t d]
    dict_update_distinct [of "[]" d]
  by (simp add: analyze_project_trace_def)

theorem analyze_project_first_match_witness:
  "analyze_project_trace angular_world ''/proj'' =
     ((Some ''angular'', [(''angular_major_version'', PInt 17)]),
      [''check_spring_boot'', ''check_java_legacy'', ''check_angular''])"
proof -
  let ?pre = "[(''check_spring_boot'', check_spring_boot), (''check_java_legacy'', check_java_legacy)]"
  let ?c = "(''check_angular'', check_angular)"
  let ?post = "[(''check_vue'', check_vue), (''check_python'', check_python),
                (''check_gitlab_ci'', check_gitlab_ci)]"
  have dir: "isdir angular_world ''/proj''" by code_simp
  have decomp: "PROJECT_CHECKERS = ?pre @ ?c # ?post" by (simp add: PROJECT_CHECKERS_def)
  have pre: "\<forall>c' \<in> set ?pre. \<not> returns_category angular_world ''/proj'' c'" by code_simp
  have hit: "snd ?c angular_world ''/proj'' = Inr (Some ''angular'', [(''angular_major_version'', PInt 17)])"
    by code_simp
  show ?thesis
    using analyze_project_first_match [of angular_world "''/proj''" ?pre ?c ?post "''angular''"
        "[(''angular_major_version'', PInt 17)]"] dir decomp pre hit
    by simp
qed


text \<open>
  C2. A checker that raises is passed over: the loop goes on with the checkers after
  it, and the first of them that returns a category gives the result.
\<close>

theorem analyze_project_probe_exception:
  assumes dir: "isdir w p"
    and decomp: "PROJECT_CHECKERS = pre @ c # post"
    and pre: "\<forall>c' \<in> set pre. \<not> returns_category w p c'"
    and raises: "snd c w p = Inl e"
  shows "analyze_project_trace w p =
           (fst (run_checkers post w p), map fst pre @ fst c # snd (run_checkers post w p)) \<and>
         (post = post1 @ c2 # post2 \<and> (\<forall>c' \<in> set post1. \<not> returns_category w p c') \<and>
          snd c2 w p = Inr (Some t, d) \<longrightarrow>
            analyze_project w p = (Some t, dict_update [] d))"
proof -
  have not_c: "\<not> returns_category w p c" using raises by (simp add: returns_category_def)
  have "\<forall>c' \<in> set (pre @ [c]). \<not> matches w p c'"
    using pre raises decomp [symmetric] matches_returns
    by (auto simp: matches_def) (metis Un_iff set_append)
  then have "run_checkers ((pre @ [c]) @ post) w p =
      (fst (run_checkers post w p), map fst (pre @ [c]) @ snd (run_checkers post w p))"
    by (rule run_checkers_skip)
  then have first: "analyze_project_trace w p =
      (fst (run_checkers post w p), map fst pre @ fst c # snd (run_checkers post w p))"
    using dir decomp by (simp add: analyze_project_trace_def)
  have second: "analyze_project w p = (Some t, dict_update [] d)"
    if later: "post = post1 @ c2 # post2" "\<forall>c' \<in> set post1. \<not> returns_category w p c'"
      "snd c2 w p = Inr (Some t, d)"
  proof -
    have d2: "PROJECT_CHECKERS = (pre @ c # post1) @ c2 # post2" using decomp later(1) by simp
    have p2: "\<forall>c' \<in> set (pre @ c # post1). \<not> returns_category w p c'"
      using pre not_c later(2) by auto
    have "analyze_project_trace w p =
        ((Some t, dict_update [] d), map fst (pre @ c # post1) @ [fst c2])"
      using dir d2 p2 later(3) by (rule first_match_found)
    then show ?thesis by (simp add: analyze_project_def)
  qed
  show ?thesis using first second by blast
qed

theorem analyze_project_probe_exception_witness:
  "analyze_project_trace ci_world ''/proj'' =
     ((Some ''gitlab_ci'', []),
      [''check_spring_boot'', ''check_java_legacy'', ''check_angular'', ''check_vue'',
       ''check_python'', ''check_gitlab_ci'']) \<and>
   analyze_project ci_world ''/proj'' = (Some ''gitlab_ci'', [])"
proof -
  let ?pre = "[(''check_spring_boot'', check_spring_boot), (''check_java_legacy'', check_java_legacy),
               (''check_angular'', check_angular)]"
  let ?c = "(''check_vue'', check_vue)"
  let ?c2 = "(''check_gitlab_ci'', check_gitlab_ci)"
  let ?post1 = "[(''check_python'', check_python)]"
  have dir: "isdir ci_world ''/proj''" by code_simp
  have decomp: "PROJECT_CHECKERS = ?pre @ ?c # (?post1 @ [?c2])" by (simp add: PROJECT_CHECKERS_def)
  have pre: "\<forall>c' \<in> set ?pre. \<not> returns_category ci_world ''/proj'' c'" by code_simp
  have raises: "snd ?c ci_world ''/proj'' = Inl (Exception ''TypeError'')" by code_simp
  have post1: "\<forall>c' \<in> set ?post1. \<not> returns_category ci_world ''/proj'' c'" by code_simp
  have hit: "snd ?c2 ci_world ''/proj'' = Inr (Some ''gitlab_ci'', [])" by code_simp
  have rest: "run_checkers (?post1 @ [?c2]) ci_world ''/proj'' =
      ((Some ''gitlab_ci'', []), [''check_python'', ''check_gitlab_ci''])" by code_simp
  show ?thesis
    using analyze_project_probe_exception [OF dir decomp pre raises, of ?post1 ?c2 "[]" "''gitlab_ci''" "[]"]
      post1 hit rest
    by simp
qed

section \<open>Properties of check_python\<close>

lemma risk_flags_set:
  "risk_flags_true d \<Longrightarrow> (k \<in> risk_keys \<Longrightarrow> truthy v) \<Longrightarrow> risk_flags_true (dict_set k v d)"
  by (auto simp: risk_flags_true_def dict_get_set)

lemma risk_flags_django_settings:
  "risk_flags_true d \<Longrightarrow> risk_flags_true (django_settings w path d)"
  by (auto simp: django_settings_def Let_def risk_keys_def intro!: risk_flags_set split: sum.splits)

lemma risk_flags_django:
  "risk_flags_true (fst st) \<Longrightarrow> risk_flags_true (fst (django_block w p found st))"
  by (auto simp: django_block_def Let_def risk_keys_def
      intro!: risk_flags_set risk_flags_django_settings split: prod.splits option.splits)

lemma risk_flags_flask:
  "risk_flags_true (fst st) \<Longrightarrow> risk_flags_true (fst (flask_block w p found st))"
  by (auto simp: flask_block_def Let_def risk_keys_def
      intro!: risk_flags_set split: prod.splits sum.splits)

lemma risk_flags_fastapi:
  "risk_flags_true (fst st) \<Longrightarrow> risk_flags_true (fst (fastapi_block w p found st))"
  by (auto simp: fastapi_block_def Let_def risk_keys_def
      intro!: risk_flags_set split: prod.splits sum.splits)

lemma risk_flags_requirement_step:
  "risk_flags_true (fst st) \<Longrightarrow> risk_flags_true (fst (requirement_step w req st))"
  by (auto simp: requirement_step_def Let_def risk_keys_def
      intro!: risk_flags_set split: prod.splits option.splits)

lemma risk_flags_requirement_loop:
  "risk_flags_true (fst st) \<Longrightarrow> risk_flags_true (fst (requirement_loop w reqs st))"
  by (induction reqs arbitrary: st) (simp_all add: risk_flags_requirement_step)

lemma risk_flags_requirements:
  "risk_flags_true (fst st) \<Longrightarrow> risk_flags_true (fst (requirements_block w p found st))"
proof -
  assume a: "risk_flags_true (fst st)"
  obtain details fw where st: "st = (details, fw)" by (cases st)
  show ?thesis
  proof (cases "''requirements.txt'' \<in> set found")
    case False
    then show ?thesis using a by (simp add: requirements_block_def st)
  next
    case True
    show ?thesis
    proof (cases "read_file w (os_path_join p ''requirements.txt'')")
      case (Inl e)
      then show ?thesis using a True by (simp add: requirements_block_def st)
    next
      case (Inr content)
      let ?reqs = "filter (\<lambda>line. line \<noteq> [] \<and> \<not> prefix ''#'' line) (map strip (split_on CHR 0x0A content))"
      let ?r = "requirement_loop w ?reqs (dict_set ''requirements'' (PList (map PStr ?reqs)) details, [])"
      have "risk_flags_true (fst ?r)"
        using a by (intro risk_flags_requirement_loop) (auto simp: st risk_keys_def intro!: risk_flags_set)
      then show ?thesis
        using True Inr
        by (auto simp: requirements_block_def st Let_def risk_keys_def
            intro!: risk_flags_set split: prod.splits)
    qed
  qed
qed

lemma risk_flags_pyproject:
  "risk_flags_true (fst st) \<Longrightarrow> risk_flags_true (fst (pyproject_block w p found st))"
  by (auto simp: pyproject_block_def Let_def risk_keys_def
      intro!: risk_flags_set split: prod.splits sum.splits option.splits)

lemma risk_flags_pipfile:
  "risk_flags_true (fst st) \<Longrightarrow> risk_flags_true (fst (pipfile_block w p found st))"
  by (auto simp: pipfile_block_def Let_def risk_keys_def
      intro!: risk_flags_set split: prod.splits sum.splits)

lemma risk_flags_marker_files:
  "risk_flags_true d \<Longrightarrow> risk_flags_true (marker_files w p ms d)"
  by (induction w p ms d rule: marker_files.induct) (simp_all add: risk_flags_set)

lemma keep_set_version_parts:
  "k \<in> risk_keys \<Longrightarrow> dict_get (fst (set_version_parts v d)) k = dict_get d k"
  by (auto simp: set_version_parts_def risk_keys_def dict_get_set Let_def
      split: list.splits option.splits)

lemma keep_finish_version:
  "k \<in> risk_keys \<Longrightarrow> dict_get (fst (finish_version v d)) k = dict_get d k"
  using keep_set_version_parts [of k v d]
  by (auto simp: finish_version_def split: prod.splits option.splits)

lemma keep_venv_try:
  "k \<in> risk_keys \<Longrightarrow> dict_get (fst (venv_try w dir py d)) k = dict_get d k"
  by (auto simp: venv_try_def keep_finish_version dict_get_set risk_keys_def
      split: proc.splits option.splits)

lemma keep_venv_loop:
  "k \<in> risk_keys \<Longrightarrow> dict_get (fst (fst (venv_loop w p names d))) k = dict_get d k"
proof (induction names arbitrary: d)
  case Nil
  then show ?case by simp
next
  case (Cons n names)
  show ?case
    using Cons.IH [OF Cons.prems] keep_venv_try [OF Cons.prems]
    by (auto simp: Let_def split: prod.splits bool.splits) (metis fst_conv)+
qed

lemma keep_pyenv:
  "k \<in> risk_keys \<Longrightarrow> dict_get (fst (pyenv_strategy w p d)) k = dict_get d k"
  by (auto simp: pyenv_strategy_def Let_def keep_finish_version dict_get_set risk_keys_def
      split: sum.splits option.splits)

lemma keep_spec:
  "k \<in> risk_keys \<Longrightarrow> dict_get (fst (spec_strategy w src rm d)) k = dict_get d k"
  by (auto simp: spec_strategy_def keep_finish_version dict_get_set risk_keys_def
      split: option.splits)

lemma keep_pyproject:
  "k \<in> risk_keys \<Longrightarrow> dict_get (fst (pyproject_strategy w p d)) k = dict_get d k"
  by (auto simp: pyproject_strategy_def Let_def keep_spec split: sum.splits)

lemma keep_pipfile:
  "k \<in> risk_keys \<Longrightarrow> dict_get (fst (pipfile_strategy w p d)) k = dict_get d k"
  by (auto simp: pipfile_strategy_def Let_def keep_finish_version dict_get_set risk_keys_def
      split: sum.splits option.splits)

lemma keep_setup_py:
  "k \<in> risk_keys \<Longrightarrow> dict_get (fst (setup_py_strategy w p d)) k = dict_get d k"
  by (auto simp: setup_py_strategy_def Let_def keep_spec split: sum.splits)

lemma keep_file_strategies:
  assumes "k \<in> risk_keys"
  shows "dict_get (fst (file_strategies w p d)) k = dict_get d k"
proof -
  obtain d1 b1 where s1: "pyenv_strategy w p d = (d1, b1)" by (cases "pyenv_strategy w p d")
  obtain d2 b2 where s2: "pyproject_strategy w p d1 = (d2, b2)" by (cases "pyproject_strategy w p d1")
  obtain d3 b3 where s3: "pipfile_strategy w p d2 = (d3, b3)" by (cases "pipfile_strategy w p d2")
  have k1: "dict_get d1 k = dict_get d k" using keep_pyenv [OF assms, of w p d] s1 by simp
  have k2: "dict_get d2 k = dict_get d1 k" using keep_pyproject [OF assms, of w p d1] s2 by simp
  have k3: "dict_get d3 k = dict_get d2 k" using keep_pipfile [OF assms, of w p d2] s3 by simp
  show ?thesis
    using k1 k2 k3 keep_setup_py [OF assms, of w p d3]
    by (simp add: file_strategies_def s1 s2 s3 split: bool.splits)
qed

lemma keep_system_try:
  "k \<in> risk_keys \<Longrightarrow> dict_get (fst (fst (system_try w cmd d))) k = dict_get d k"
  by (auto simp: system_try_def Let_def keep_finish_version dict_get_set risk_keys_def
      split: proc.splits option.splits)

lemma keep_system_loop:
  "k \<in> risk_keys \<Longrightarrow> dict_get (fst (system_loop w cmds d)) k = dict_get d k"
proof (induction cmds arbitrary: d)
  case Nil
  then show ?case by simp
next
  case (Cons c cmds)
  obtain d' b calls where t: "system_try w c d = ((d', b), calls)"
    by (cases "system_try w c d") auto
  have "dict_get d' k = dict_get d k" using keep_system_try [OF Cons.prems, of w c d] t by simp
  then show ?case
    using Cons.IH [OF Cons.prems, of d']
    by (cases b; cases "system_loop w cmds d'") (simp_all add: t)
qed

lemma keep_detect_python_version:
  assumes "k \<in> risk_keys"
  shows "dict_get (fst (detect_python_version w p)) k = None"
proof -
  obtain d1 b1 c1 where v: "venv_loop w p venv_paths [] = ((d1, b1), c1)"
    by (cases "venv_loop w p venv_paths []") auto
  obtain d2 b2 where f: "file_strategies w p d1 = (d2, b2)" by (cases "file_strategies w p d1")
  obtain d3 c3 where l: "system_loop w (python_commands w) d2 = (d3, c3)"
    by (cases "system_loop w (python_commands w) d2")
  have k1: "dict_get d1 k = None" using keep_venv_loop [OF assms, of w p venv_paths "[]"] v by simp
  have k2: "dict_get d2 k = None" using keep_file_strategies [OF assms, of w p d1] f k1 by simp
  have k3: "dict_get d3 k = None" using keep_system_loop [OF assms, of w "python_commands w" d2] l k2 by simp
  have "fst (detect_python_version w p) = (if b1 then d1 else if b2 then d2 else d3)"
    by (cases b1; cases b2) (simp_all add: detect_python_version_def v f l)
  then show ?thesis using k1 k2 k3 by simp
qed

lemma risk_flags_update:
  assumes "risk_flags_true d" and "\<And>k. k \<in> risk_keys \<Longrightarrow> dict_get e k = None"
  shows "risk_flags_true (dict_update d e)"
proof -
  have "dict_get (dict_update d e) k = dict_get d k" if "k \<in> risk_keys" for k
    using assms(2) [OF that] dict_get_rev_None [of e k] by (simp add: dict_get_update)
  then show ?thesis using assms(1) by (simp add: risk_flags_true_def)
qed

lemma risk_flags_python_details: "risk_flags_true (python_details w p found)"
proof -
  let ?s0 = "([(''python_indicators'', PList (map PStr found))], []) :: pystate"
  let ?s1 = "django_block w p found ?s0"
  let ?s2 = "flask_block w p found ?s1"
  let ?s3 = "fastapi_block w p found ?s2"
  let ?s4 = "requirements_block w p found ?s3"
  let ?s5 = "pyproject_block w p found ?s4"
  let ?s6 = "pipfile_block w p found ?s5"
  let ?m = "marker_files w p
              [(''wsgi.py'', ''has_wsgi''), (''asgi.py'', ''has_asgi''),
               (''pytest.ini'', ''has_pytest''), (''tox.ini'', ''has_tox''),
               (''conftest.py'', ''has_conftest''), (''Dockerfile'', ''has_docker'')] (fst ?s6)"
  let ?d = "dict_set ''frameworks_detected'' (PList (map PStr (snd ?s6))) ?m"
  have "risk_flags_true (fst ?s0)" by (simp add: risk_flags_true_def risk_keys_def)
  then have "risk_flags_true (fst ?s1)" by (rule risk_flags_django)
  then have "risk_flags_true (fst ?s2)" by (rule risk_flags_flask)
  then have "risk_flags_true (fst ?s3)" by (rule risk_flags_fastapi)
  then have "risk_flags_true (fst ?s4)" by (rule risk_flags_requirements)
  then have "risk_flags_true (fst ?s5)" by (rule risk_flags_pyproject)
  then have "risk_flags_true (fst ?s6)" by (rule risk_flags_pipfile)
  then have "risk_flags_true ?m" by (rule risk_flags_marker_files)
  then have d: "risk_flags_true ?d" by (rule risk_flags_set) (simp add: risk_keys_def)
  then have "risk_flags_true (dict_update ?d (fst (detect_python_version w p)))"
    by (rule risk_flags_update) (rule keep_detect_python_version)
  then show ?thesis using d unfolding python_details_def Let_def by (simp del: marker_files.simps)
qed

lemma python_priority_by_keys:
  assumes "risk_flags_true d"
  shows "python_security_priority d =
     (if dict_get d ''debug_enabled'' \<noteq> None then ''high''
      else if dict_get d ''hardcoded_secret_key'' \<noteq> None \<or> dict_get d ''risky_packages'' \<noteq> None
      then ''medium'' else ''low'')"
proof -
  have "get_truthy d k \<longleftrightarrow> dict_get d k \<noteq> None" if "k \<in> risk_keys" for k
    using assms that by (auto simp: risk_flags_true_def get_truthy_def split: option.splits)
  then show ?thesis by (simp add: python_security_priority_def risk_keys_def)
qed

text \<open>
  C10. Whenever \<^verbatim>\<open>check_python\<close> returns a project type, the type is \<^verbatim>\<open>python\<close> and the
  details hold \<^verbatim>\<open>security_priority\<close>: \<^verbatim>\<open>high\<close> when the key \<^verbatim>\<open>debug_enabled\<close> is present,
  otherwise \<^verbatim>\<open>medium\<close> when \<^verbatim>\<open>hardcoded_secret_key\<close> or \<^verbatim>\<open>risky_packages\<close> is present,
  otherwise \<^verbatim>\<open>low\<close>; it is never \<^verbatim>\<open>critical\<close>.
\<close>

theorem check_python_security_priority:
  assumes "check_python w p = Inr (Some t, details)"
  shows "t = ''python'' \<and>
         dict_get details ''security_priority'' =
           Some (PStr (if dict_get details ''debug_enabled'' \<noteq> None then ''high''
                       else if dict_get details ''hardcoded_secret_key'' \<noteq> None \<or>
                               dict_get details ''risky_packages'' \<noteq> None
                       then ''medium'' else ''low'')) \<and>
         dict_get details ''security_priority'' \<noteq> Some (PStr ''critical'')"
proof -
  let ?found = "filter (\<lambda>i. exists w (os_path_join p i)) indicators"
  let ?d = "python_details w p ?found"
  have t: "t = ''python''"
    and details: "details = dict_set ''security_priority'' (PStr (python_security_priority ?d)) ?d"
    using assms by (auto simp: check_python_def Let_def split: if_splits)
  have same: "dict_get details k = dict_get ?d k" if "k \<in> risk_keys" for k
    using that by (auto simp: details dict_get_set risk_keys_def)
  have prio: "dict_get details ''security_priority'' = Some (PStr (python_security_priority ?d))"
    by (simp add: details dict_get_set)
  have "python_security_priority ?d =
     (if dict_get details ''debug_enabled'' \<noteq> None then ''high''
      else if dict_get details ''hardcoded_secret_key'' \<noteq> None \<or>
              dict_get details ''risky_packages'' \<noteq> None
      then ''medium'' else ''low'')"
    using python_priority_by_keys [OF risk_flags_python_details, of w p ?found]
      same [of "''debug_enabled''"] same [of "''hardcoded_secret_key''"] same [of "''risky_packages''"]
    by (simp add: risk_keys_def)
  then show ?thesis using t prio by simp
qed

theorem check_python_security_priority_witness:
  "check_python flask_world ''/site'' =
     Inr (Some ''python'',
          [(''python_indicators'', PList [PStr ''app.py'']), (''is_flask'', PBool True),
           (''debug_enabled'', PBool True), (''frameworks_detected'', PList [PStr ''Flask'']),
           (''security_priority'', PStr ''high'')]) \<and>
   dict_get [(''python_indicators'', PList [PStr ''app.py'']), (''is_flask'', PBool True),
           (''debug_enabled'', PBool True), (''frameworks_detected'', PList [PStr ''Flask'']),
           (''security_priority'', PStr ''high'')] ''security_priority'' = Some (PStr ''high'')"
proof -
  have run: "check_python flask_world ''/site'' =
     Inr (Some ''python'',
          [(''python_indicators'', PList [PStr ''app.py'']), (''is_flask'', PBool True),
           (''debug_enabled'', PBool True), (''frameworks_detected'', PList [PStr ''Flask'']),
           (''security_priority'', PStr ''high'')])"
    by code_simp
  show ?thesis using check_python_security_priority [OF run] run by simp
qed

section \<open>Properties of check_spring_boot\<close>

lemma boot_dep_named:
  "\<exists>d'. boot_dep g (Some a) d = Inr d' \<and> (\<forall>k \<in> version_keys. dict_get d' k = dict_get d k)"
  by (auto simp: boot_dep_def version_keys_def dict_get_set)

lemma boot_deps_named:
  "list_all (\<lambda>dep. case elem_find dep (m ''artifactId'') of
                      None \<Rightarrow> True | Some a \<Rightarrow> etext a \<noteq> None) deps \<Longrightarrow>
   snd (boot_deps deps d) = None \<and>
   (\<forall>k \<in> version_keys. dict_get (fst (boot_deps deps d)) k = dict_get d k)"
proof (induction deps arbitrary: d)
  case Nil
  then show ?case by simp
next
  case (Cons dep deps)
  show ?case
  proof (cases "elem_find dep (m ''groupId'')")
    case None
    then show ?thesis using Cons by simp
  next
    case g: (Some groupId)
    show ?thesis
    proof (cases "elem_find dep (m ''artifactId'')")
      case None
      then show ?thesis using Cons g by simp
    next
      case a: (Some artifactId)
      then obtain t where t: "etext artifactId = Some t" using Cons.prems by auto
      obtain d' where d': "boot_dep (etext groupId) (Some t) d = Inr d'"
        and keep: "\<forall>k \<in> version_keys. dict_get d' k = dict_get d k"
        using boot_dep_named by blast
      show ?thesis using Cons.IH [of d'] Cons.prems g a t d' keep by simp
    qed
  qed
qed

lemma boot_version_text:
  assumes "elem_find parent (m ''version'') = Some vt" and "etext vt = Some v"
  shows "snd (boot_version parent []) = None \<and>
         dict_get (fst (boot_version parent [])) ''spring_boot_version'' = Some (PStr v) \<and>
         dict_get (fst (boot_version parent [])) ''spring_boot_major_version'' =
           map_option (\<lambda>g. PInt (int_of_digits g)) (search_digits v) \<and>
         (\<forall>g. search_digits v = Some g \<and> int_of_digits g = 1 \<longrightarrow>
            dict_get (fst (boot_version parent [])) ''is_legacy'' = Some (PBool True) \<and>
            dict_get (fst (boot_version parent [])) ''security_priority'' = Some (PStr ''high''))"
  using assms by (auto simp: boot_version_def Let_def split: option.splits)

text \<open>
  What holds of the detection under a matching parent: when every dependency that has
  an \<^verbatim>\<open>artifactId\<close> element has text in it, the project is detected as \<^verbatim>\<open>springboot\<close>,
  the version attribute is the declared string, and the major version is the number
  written by the first run of digits of that string.
\<close>

lemma check_spring_boot_parent_detected:
  assumes pom: "exists w (os_path_join p ''pom.xml'')"
    and parse: "et_parse w (os_path_join p ''pom.xml'') = Parsed root"
    and parent: "elem_find root (m ''parent'') = Some parent"
    and artifact: "elem_find parent (m ''artifactId'') = Some a"
      "etext a = Some ''spring-boot-starter-parent''"
    and version: "elem_find parent (m ''version'') = Some vt" "etext vt = Some v"
    and named: "artifacts_named root"
  shows "\<exists>details. check_spring_boot w p = Inr (Some ''springboot'', details) \<and>
           dict_get details ''spring_boot_version'' = Some (PStr v) \<and>
           dict_get details ''spring_boot_major_version'' =
             map_option (\<lambda>g. PInt (int_of_digits g)) (search_digits v) \<and>
           (\<forall>g. search_digits v = Some g \<and> int_of_digits g = 1 \<longrightarrow>
              dict_get details ''is_legacy'' = Some (PBool True) \<and>
              dict_get details ''security_priority'' = Some (PStr ''high''))"
proof -
  obtain d0 where bv: "boot_version parent [] = (d0, None)"
    using boot_version_text [OF version] by (cases "boot_version parent []") auto
  have d0: "dict_get d0 ''spring_boot_version'' = Some (PStr v)"
    "dict_get d0 ''spring_boot_major_version'' = map_option (\<lambda>g. PInt (int_of_digits g)) (search_digits v)"
    "\<forall>g. search_digits v = Some g \<and> int_of_digits g = 1 \<longrightarrow>
        dict_get d0 ''is_legacy'' = Some (PBool True) \<and>
        dict_get d0 ''security_priority'' = Some (PStr ''high'')"
    using boot_version_text [OF version] bv by simp_all
  have "\<exists>d1. pom_body root = (d1, Returned) \<and> (\<forall>k \<in> version_keys. dict_get d1 k = dict_get d0 k)"
  proof (cases "elem_find root (m ''dependencies'')")
    case None
    then show ?thesis using parent artifact bv by (simp add: pom_body_def)
  next
    case (Some dependencies)
    let ?deps = "elem_findall dependencies (m ''dependency'')"
    have ok: "snd (boot_deps ?deps d0) = None \<and>
        (\<forall>k \<in> version_keys. dict_get (fst (boot_deps ?deps d0)) k = dict_get d0 k)"
      using named Some by (intro boot_deps_named) (simp add: artifacts_named_def)
    obtain d1 where d1: "boot_deps ?deps d0 = (d1, None)"
      using ok by (cases "boot_deps ?deps d0") auto
    show ?thesis using parent artifact bv Some d1 ok by (simp add: pom_body_def)
  qed
  then obtain d1 where body: "pom_body root = (d1, Returned)"
    and keep: "\<forall>k \<in> version_keys. dict_get d1 k = dict_get d0 k" by blast
  have "check_spring_boot w p = Inr (Some ''springboot'', d1)"
    using pom parse body by (simp add: check_spring_boot_def pom_try_def Let_def)
  then show ?thesis using keep d0 by (auto simp: version_keys_def)
qed

lemma spring_boot_versions:
  "search_digits ''2.7.5'' = Some ''2'' \<and> int_of_digits ''2'' = 2 \<and>
   check_spring_boot (pom_world ''1.4.2'' []) ''/app'' =
     Inr (Some ''springboot'',
          [(''spring_boot_version'', PStr ''1.4.2''), (''spring_boot_major_version'', PInt 1),
           (''is_legacy'', PBool True), (''security_priority'', PStr ''high'')])"
  by code_simp

text \<open>
  C3. A \<^verbatim>\<open>pom.xml\<close> that declares the parent \<^verbatim>\<open>spring-boot-starter-parent\<close> in version
  \<^verbatim>\<open>2.7.5\<close> and a \<^verbatim>\<open>mysql\<close> dependency with an empty \<^verbatim>\<open>artifactId\<close> element is not
  detected: the dependency scan raises inside the \<^verbatim>\<open>try\<close>, the match is dropped, and
  neither \<^verbatim>\<open>check_spring_boot\<close> nor \<^verbatim>\<open>analyze_project\<close> returns a category. With the
  artifact named, the same project is detected with major version 2.
\<close>

theorem check_spring_boot_empty_artifact:
  "check_spring_boot (pom_world ''2.7.5'' [dependency ''mysql'' None]) ''/app'' = Inr (None, []) \<and>
   analyze_project (pom_world ''2.7.5'' [dependency ''mysql'' None]) ''/app'' = (None, []) \<and>
   check_spring_boot (pom_world ''2.7.5'' [dependency ''mysql'' (Some ''mysql-connector-java'')]) ''/app'' =
     Inr (Some ''springboot'',
          [(''spring_boot_version'', PStr ''2.7.5''), (''spring_boot_major_version'', PInt 2),
           (''is_modern'', PBool True), (''security_priority'', PStr ''medium''),
           (''database_mysql'', PBool True)])"
  by code_simp

section \<open>Properties of detect_python_version\<close>

lemma venv_loop_timeouts: "\<forall>c \<in> set (snd (venv_loop w p names d)). snd c = 5"
proof (induction names arbitrary: d)
  case Nil
  then show ?case by simp
next
  case (Cons n names)
  let ?dir = "os_path_join p n"
  let ?py = "venv_python_of w ?dir"
  obtain d' b where t: "venv_try w ?dir ?py d = (d', b)" by (cases "venv_try w ?dir ?py d")
  show ?case
    using Cons.IH [of d'] Cons.IH [of d]
    by (cases b; cases "venv_loop w p names d'") (auto simp: Let_def t)
qed

lemma system_try_timeouts: "\<forall>c \<in> set (snd (system_try w cmd d)). snd c = 5"
  by (auto simp: system_try_def Let_def split: proc.splits option.splits)

lemma system_loop_timeouts: "\<forall>c \<in> set (snd (system_loop w cmds d)). snd c = 5"
proof (induction cmds arbitrary: d)
  case Nil
  then show ?case by simp
next
  case (Cons c cmds)
  obtain d' b calls where t: "system_try w c d = ((d', b), calls)"
    by (cases "system_try w c d") auto
  have "\<forall>c \<in> set calls. snd c = 5" using system_try_timeouts [of w c d] t by simp
  then show ?case
    using Cons.IH [of d'] by (cases b; cases "system_loop w cmds d'") (auto simp: t)
qed

lemma detect_python_version_timeouts:
  "\<forall>c \<in> set (snd (detect_python_version w p)). snd c = 5"
proof -
  obtain d1 b1 c1 where v: "venv_loop w p venv_paths [] = ((d1, b1), c1)"
    by (cases "venv_loop w p venv_paths []") auto
  obtain d2 b2 where f: "file_strategies w p d1 = (d2, b2)" by (cases "file_strategies w p d1")
  obtain d3 c3 where l: "system_loop w (python_commands w) d2 = (d3, c3)"
    by (cases "system_loop w (python_commands w) d2")
  have c1: "\<forall>c \<in> set c1. snd c = 5" using venv_loop_timeouts [of w p venv_paths "[]"] v by simp
  have c3: "\<forall>c \<in> set c3. snd c = 5" using system_loop_timeouts [of w "python_commands w" d2] l by simp
  have "snd (detect_python_version w p) = (if b1 \<or> b2 then c1 else c1 @ c3)"
    by (cases b1; cases b2) (simp_all add: detect_python_version_def v f l)
  then show ?thesis using c1 c3 by auto
qed

lemma venv_loop_all_timeout:
  assumes "\<forall>args. subprocess_run w args 5 = TimeoutExpired"
  shows "fst (venv_loop w p names d) = (d, False)"
proof (induction names)
  case Nil
  then show ?case by simp
next
  case (Cons n names)
  have "venv_try w dir py d = (d, False)" for dir py
    using assms by (simp add: venv_try_def)
  then show ?case
    using Cons.IH by (cases "venv_loop w p names d") (auto simp: Let_def)
qed

lemma system_loop_all_timeout:
  assumes "\<forall>args. subprocess_run w args 5 = TimeoutExpired"
  shows "fst (system_loop w cmds d) = d"
proof (induction cmds)
  case Nil
  then show ?case by simp
next
  case (Cons c cmds)
  have "system_try w c d = ((d, False), [([c, ''--version''], 5)])"
    using assms by (simp add: system_try_def)
  then show ?case
    using Cons.IH by (cases "system_loop w cmds d") auto
qed

lemma file_strategies_no_files:
  assumes "\<not> exists w (os_path_join p ''.python-version'')"
    and "\<not> exists w (os_path_join p ''pyproject.toml'')"
    and "\<not> exists w (os_path_join p ''Pipfile'')"
    and "\<not> exists w (os_path_join p ''setup.py'')"
  shows "file_strategies w p d = (d, False)"
  using assms
  by (simp add: file_strategies_def pyenv_strategy_def pyproject_strategy_def
      pipfile_strategy_def setup_py_strategy_def)

text \<open>
  C6. Every call of \<^verbatim>\<open>subprocess.run\<close> that \<^verbatim>\<open>detect_python_version\<close> makes is given the
  timeout 5. When every such call ends in \<^verbatim>\<open>TimeoutExpired\<close>, the function still returns:
  its result is what the file strategies alone find, and the empty dictionary when none
  of their four files exists.
\<close>

theorem detect_python_version_timeout:
  "(\<forall>c \<in> set (snd (detect_python_version w p)). snd c = 5) \<and>
   (subprocess_run w [venv_python, ''--version''] 5 = TimeoutExpired \<longrightarrow>
      venv_try w venv_dir venv_python d = (d, False)) \<and>
   (subprocess_run w [python_cmd, ''--version''] 5 = TimeoutExpired \<or>
    subprocess_run w [if is_windows w then ''where'' else ''which'', python_cmd] 5 = TimeoutExpired \<longrightarrow>
      fst (system_try w python_cmd d) = (d, False)) \<and>
   ((\<forall>args. subprocess_run w args 5 = TimeoutExpired) \<longrightarrow>
      fst (detect_python_version w p) = fst (file_strategies w p []) \<and>
      (\<not> exists w (os_path_join p ''.python-version'') \<and>
       \<not> exists w (os_path_join p ''pyproject.toml'') \<and>
       \<not> exists w (os_path_join p ''Pipfile'') \<and>
       \<not> exists w (os_path_join p ''setup.py'') \<longrightarrow>
         fst (detect_python_version w p) = []))"
proof -
  have result: "fst (detect_python_version w p) = fst (file_strategies w p [])"
    if timeout: "\<forall>args. subprocess_run w args 5 = TimeoutExpired"
  proof -
    obtain c1 where v: "venv_loop w p venv_paths [] = (([], False), c1)"
      using venv_loop_all_timeout [OF timeout, of p venv_paths "[]"]
      by (cases "venv_loop w p venv_paths []") auto
    obtain d2 b2 where f: "file_strategies w p [] = (d2, b2)" by (cases "file_strategies w p []")
    obtain c3 where l: "system_loop w (python_commands w) d2 = (d2, c3)"
      using system_loop_all_timeout [OF timeout, of "python_commands w" d2]
      by (cases "system_loop w (python_commands w) d2") auto
    show ?thesis by (cases b2) (simp_all add: detect_python_version_def v f l)
  qed
  have venv: "venv_try w venv_dir venv_python d = (d, False)"
    if "subprocess_run w [venv_python, ''--version''] 5 = TimeoutExpired"
    using that by (simp add: venv_try_def)
  have system: "fst (system_try w python_cmd d) = (d, False)"
    if "subprocess_run w [python_cmd, ''--version''] 5 = TimeoutExpired \<or>
        subprocess_run w [if is_windows w then ''where'' else ''which'', python_cmd] 5 = TimeoutExpired"
    using that
    by (cases "is_windows w") (auto simp: system_try_def Let_def split: proc.splits option.splits)
  show ?thesis
    using detect_python_version_timeouts [of w p] result file_strategies_no_files [of w p "[]"]
      venv system
    by auto
qed

theorem detect_python_version_timeout_witness:
  "fst (detect_python_version timeout_world ''/svc'') = [] \<and>
   snd (detect_python_version timeout_world ''/svc'') =
     [([''/svc/.venv/bin/python'', ''--version''], 5), ([''python3'', ''--version''], 5),
      ([''python'', ''--version''], 5)]"
proof -
  have timeout: "\<forall>args. subprocess_run timeout_world args 5 = TimeoutExpired"
    by (simp add: timeout_world_def)
  have files: "\<not> exists timeout_world (os_path_join ''/svc'' ''.python-version'') \<and>
       \<not> exists timeout_world (os_path_join ''/svc'' ''pyproject.toml'') \<and>
       \<not> exists timeout_world (os_path_join ''/svc'' ''Pipfile'') \<and>
       \<not> exists timeout_world (os_path_join ''/svc'' ''setup.py'')"
    by code_simp
  have calls: "snd (detect_python_version timeout_world ''/svc'') =
     [([''/svc/.venv/bin/python'', ''--version''], 5), ([''python3'', ''--version''], 5),
      ([''python'', ''--version''], 5)]"
    by code_simp
  have "fst (detect_python_version timeout_world ''/svc'') = []"
    using detect_python_version_timeout [of timeout_world "''/svc''"] timeout files by blast
  then show ?thesis using calls by simp
qed

end
